theory Spec2Isabelle
  imports Main
begin

section \<open>Python values and string helpers\<close>

text \<open>
  The scripts of the archive handle identifiers read from CSV tables. A cell of such a
  table is an integer or a string; \<open>str(...)\<close> turns either into a string. Strings
  are lists of 8-bit characters, so the model covers identifiers in the Latin-1 range.
\<close>

datatype pyval = PyInt int | PyStr string

fun str_nat :: "nat \<Rightarrow> string" where
  "str_nat n =
     (if n < 10 then [char_of (48 + n)]
      else str_nat (n div 10) @ [char_of (48 + n mod 10)])"

declare str_nat.simps [simp del]

fun py_str :: "pyval \<Rightarrow> string" where
  "py_str (PyInt i) = (if i < 0 then CHR ''-'' # str_nat (nat (- i)) else str_nat (nat i))"
| "py_str (PyStr s) = s"

text \<open>\<open>str.strip()\<close> without argument removes leading and trailing whitespace.\<close>

definition py_isspace :: "char \<Rightarrow> bool" where
  "py_isspace c = ((of_char c :: nat) \<in> {9, 10, 11, 12, 13, 28, 29, 30, 31, 32, 133, 160})"

definition strip :: "string \<Rightarrow> string" where
  "strip s = rev (dropWhile py_isspace (rev (dropWhile py_isspace s)))"

definition startswith :: "string \<Rightarrow> string \<Rightarrow> bool" where
  "startswith s p = (take (length p) s = p)"

text \<open>
  \<open>s.replace(old, new)\<close> replaces every non-overlapping occurrence of \<open>old\<close>, scanning
  from the left. The source only calls it with a non-empty \<open>old\<close>; for an empty one the
  model returns the string unchanged.
\<close>

function py_replace :: "string \<Rightarrow> string \<Rightarrow> string \<Rightarrow> string" where
  "py_replace old new [] = []"
| "py_replace old new (c # cs) =
     (if old \<noteq> [] \<and> startswith (c # cs) old
      then new @ py_replace old new (drop (length old) (c # cs))
      else c # py_replace old new cs)"
  by pat_completeness auto
termination
  by (relation "measure (\<lambda>(old, new, s). length s)") auto

text \<open>\<open>os.path.join\<close> and \<open>os.path.basename\<close> of \<open>posixpath\<close>, for two components.\<close>

definition os_path_join :: "string \<Rightarrow> string \<Rightarrow> string" where
  "os_path_join a b =
     (if startswith b ''/'' then b
      else if a = [] \<or> last a = CHR ''/'' then a @ b
      else a @ ''/'' @ b)"

definition os_path_basename :: "string \<Rightarrow> string" where
  "os_path_basename p = rev (takeWhile (\<lambda>c. c \<noteq> CHR ''/'') (rev p))"

section \<open>The light-curve downloader: data model\<close>

text \<open>
  A FetchResult is the dictionary the Worker returns. The \<open>kepler_id\<close> field is a
  Python value: rows produced in a run hold strings, rows loaded from a summary file may
  hold integers, and the source applies \<open>str\<close> before comparing.
\<close>

record fetch_result =
  kepler_id :: pyval
  success :: bool
  output_file :: "string option"
  status :: string

text \<open>
  A data frame has a number of rows and named columns. Assigning a scalar to a column
  broadcasts it over the rows, replacing a column of that name or appending a new one.
\<close>

record dataframe =
  nrows :: nat
  cols :: "(string \<times> string list) list"

fun set_col :: "string \<Rightarrow> string list \<Rightarrow> (string \<times> string list) list \<Rightarrow> (string \<times> string list) list" where
  "set_col c vs [] = [(c, vs)]"
| "set_col c vs ((c', vs') # rest) =
     (if c' = c then (c, vs) # rest else (c', vs') # set_col c vs rest)"

definition set_column :: "string \<Rightarrow> string \<Rightarrow> dataframe \<Rightarrow> dataframe" where
  "set_column c v df = df\<lparr>cols := set_col c (replicate (nrows df) v) (cols df)\<rparr>"

text \<open>
  What a file of the output directory holds, as far as the script can tell: a light curve
  written by the Worker; a summary written by the dispatcher; any other text that pandas
  reads as a table, of which only the number of data rows matters here and which has no
  column \<open>kepler_id\<close>; or bytes that \<open>pd.read_csv\<close> cannot read (an empty file, a
  row with more fields than the header), with the message of the exception it raises. An
  interrupted write leaves any of these behind.
\<close>

datatype content =
    Csv_lightcurve dataframe
  | Csv_summary "fetch_result list"
  | Csv_other nat
  | Unreadable string

text \<open>
  What reaches the terminal: a call of \<open>print\<close> with its arguments (a string or a
  list of strings each), or the prompt of a call of \<open>input\<close>.
\<close>

datatype pyarg = Str string | StrList "string list"

datatype event = Print "pyarg list" | Input string

text \<open>
  The world the script runs in: the files that exist with their content, the log of
  completed file writes (oldest first), the search terms sent to the remote archive
  (oldest first), and what was printed.
\<close>

record world =
  files :: "string \<rightharpoonup> content"
  writes :: "(string \<times> content) list"
  queries :: "string list"
  stdout :: "event list"

definition os_path_exists :: "world \<Rightarrow> string \<Rightarrow> bool" where
  "os_path_exists w p = (files w p \<noteq> None)"

definition write_file :: "string \<Rightarrow> content \<Rightarrow> world \<Rightarrow> world" where
  "write_file p c w = w\<lparr>files := (files w)(p \<mapsto> c), writes := writes w @ [(p, c)]\<rparr>"

definition print :: "pyarg list \<Rightarrow> world \<Rightarrow> world" where
  "print args w = w\<lparr>stdout := stdout w @ [Print args]\<rparr>"

text \<open>
  The third-party calls the Worker makes. Each either raises an exception of class
  \<open>Exception\<close>, given by its message (\<open>Inl\<close>), or returns. \<open>search_lightcurve\<close> returns
  the list of search results, \<open>download\<close> fetches one of them, \<open>to_pandas\<close> converts
  it. \<open>to_csv_fault\<close> says whether writing to a path raises, and if so with which
  message and what is left at the path (nothing, or some partial content).
\<close>

record ('h, 'lc) library =
  search_lightcurve :: "string \<Rightarrow> string + 'h list"
  download :: "'h \<Rightarrow> string + 'lc"
  to_pandas :: "'lc \<Rightarrow> string + dataframe"
  to_csv_fault :: "string \<Rightarrow> (string \<times> content option) option"

section \<open>The Worker\<close>

definition artifact_name :: "string \<Rightarrow> string" where
  "artifact_name kid = ''kepler_'' @ kid @ ''_lightkurve.csv''"

text \<open>
  The statements of the \<open>try\<close> block after the identifier has been cleaned. \<open>Inl e\<close> is
  an exception with message \<open>e\<close> raised inside the block, \<open>Inr r\<close> a \<open>return r\<close>.
\<close>

definition try_block ::
  "('h, 'lc) library \<Rightarrow> string \<Rightarrow> string \<Rightarrow> world \<Rightarrow> (string + fetch_result) \<times> world" where
  "try_block lib kepler_id_clean output_dir w =
     (let output_file = os_path_join output_dir (artifact_name kepler_id_clean) in
      if os_path_exists w output_file then
        (Inr \<lparr>kepler_id = PyStr kepler_id_clean, success = True,
              output_file = Some output_file, status = ''Skipped (already exists)''\<rparr>, w)
      else
        let search_term = ''KIC '' @ kepler_id_clean;
            w1 = w\<lparr>queries := queries w @ [search_term]\<rparr>
        in case search_lightcurve lib search_term of
             Inl e \<Rightarrow> (Inl e, w1)
           | Inr search_result \<Rightarrow>
               (case search_result of
                  [] \<Rightarrow>
                    (Inr \<lparr>kepler_id = PyStr kepler_id_clean, success = False,
                          output_file = None, status = ''No light curve found''\<rparr>, w1)
                | h # _ \<Rightarrow>
                    (case download lib h of
                       Inl e \<Rightarrow> (Inl e, w1)
                     | Inr lc \<Rightarrow>
                         (case to_pandas lib lc of
                            Inl e \<Rightarrow> (Inl e, w1)
                          | Inr df \<Rightarrow>
                              (let df' = set_column ''kepler_id'' kepler_id_clean df in
                               case to_csv_fault lib output_file of
                                 Some (e, left) \<Rightarrow>
                                   (Inl e,
                                    case left of
                                      None \<Rightarrow> w1
                                    | Some c \<Rightarrow> w1\<lparr>files := (files w1)(output_file \<mapsto> c)\<rparr>)
                               | None \<Rightarrow>
                                   (Inr \<lparr>kepler_id = PyStr kepler_id_clean, success = True,
                                         output_file = Some output_file,
                                         status = ''Downloaded''\<rparr>,
                                    write_file output_file (Csv_lightcurve df') w1))))))"

text \<open>
  \<open>download_lightkurve_data\<close>: the \<open>try\<close> block with its handler
  \<open>except Exception as e\<close>. The first statement of the block, \<open>str(kepler_id).strip()\<close>,
  cannot raise on an integer or a string, so \<open>kepler_id_clean\<close> is bound in the handler.
  The result is what \<open>future.result()\<close> gives the dispatcher: \<open>Inr r\<close> when the call
  returns \<open>r\<close>, \<open>Inl e\<close> when an exception leaves the function.
\<close>

definition download_lightkurve_data ::
  "('h, 'lc) library \<Rightarrow> pyval \<Rightarrow> string \<Rightarrow> world \<Rightarrow> (string + fetch_result) \<times> world" where
  "download_lightkurve_data lib kid output_dir w =
     (let kepler_id_clean = strip (py_str kid) in
      case try_block lib kepler_id_clean output_dir w of
        (Inr r, w') \<Rightarrow> (Inr r, w')
      | (Inl e, w') \<Rightarrow>
          (Inr \<lparr>kepler_id = PyStr kepler_id_clean, success = False,
                output_file = None, status = ''Error: '' @ e\<rparr>, w'))"

section \<open>The job runner\<close>

text \<open>
  The input table: its columns in order, each with the cells of that column. What the
  script is given from outside: the result of reading the input file, the operator's
  answer to the prompt, and for each submitted download (by position in the work list)
  the time at which it completes. The downloads run in a thread pool; the model runs
  them one after the other in the order in which they complete.
\<close>

type_synonym table = "(string \<times> pyval list) list"

definition columns :: "table \<Rightarrow> string list" where
  "columns df = map fst df"

record env =
  input_table :: "string + table"
  operator_reply :: string
  completion_time :: "nat \<Rightarrow> nat"

datatype outcome = Crashed string | Exited | Completed

text \<open>\<open>concurrent.futures.as_completed\<close>: the submitted identifiers by completion time.\<close>

definition as_completed :: "env \<Rightarrow> string list \<Rightarrow> string list" where
  "as_completed e kepler_ids =
     map snd (sort_key (\<lambda>(i, kid). completion_time e i) (enumerate 0 kepler_ids))"

definition quoted :: "string \<Rightarrow> string" where
  "quoted s = [CHR 0x27] @ s @ [CHR 0x27]"

text \<open>Lines 93 to 101: the identifier column, or \<open>None\<close> when the run returns early.\<close>

definition choose_column :: "env \<Rightarrow> table \<Rightarrow> world \<Rightarrow> string option \<times> world" where
  "choose_column e df_input w =
     (let koi_column = ''kepid'' in
      if koi_column \<notin> set (columns df_input) then
        let w1 = print [Str (''Column '' @ quoted koi_column @ '' not found in the input CSV.'')] w;
            w2 = print [Str ''Available columns:'', StrList (columns df_input)] w1;
            w3 = w2\<lparr>stdout := stdout w2 @ [Input ''Please enter the column name containing Kepler IDs: '']\<rparr>;
            koi_column = operator_reply e
        in if koi_column \<notin> set (columns df_input) then
             (None, print [Str (''Column '' @ quoted koi_column @ '' not found. Exiting.'')] w3)
           else (Some koi_column, w3)
      else (Some koi_column, w))"

text \<open>
  The records \<open>pd.read_csv(summary_file).to_dict('records')\<close> yields: rows with the
  key \<open>kepler_id\<close>, or a number of records without that key.
\<close>

datatype loaded = Records "fetch_result list" | Records_without_id nat

text \<open>
  A record read from a light curve has the key \<open>kepler_id\<close> and none of the other
  three; the fields that are missing (NaN) are written \<open>False\<close>, \<open>None\<close> and the
  empty string.
\<close>

definition lightcurve_record :: "string \<Rightarrow> fetch_result" where
  "lightcurve_record c = \<lparr>kepler_id = PyStr c, success = False, output_file = None, status = []\<rparr>"

text \<open>
  \<open>pd.read_csv\<close> on the summary file, followed by \<open>to_dict('records')\<close>. A data
  frame without columns is written as an empty line, which cannot be read back
  (\<open>EmptyDataError\<close>); so the summary of a run without rows cannot be read back.
\<close>

definition read_summary :: "content \<Rightarrow> string + loaded" where
  "read_summary c =
     (case c of
        Csv_summary rs \<Rightarrow>
          if rs = [] then Inl ''EmptyDataError: No columns to parse from file''
          else Inr (Records rs)
      | Csv_lightcurve df \<Rightarrow>
          if cols df = [] then Inl ''EmptyDataError: No columns to parse from file''
          else (case map_of (cols df) ''kepler_id'' of
                  None \<Rightarrow> Inr (Records_without_id (nrows df))
                | Some cells \<Rightarrow> Inr (Records (map lightcurve_record cells)))
      | Csv_other n \<Rightarrow> Inr (Records_without_id n)
      | Unreadable msg \<Rightarrow> Inl msg)"

definition record_count :: "loaded \<Rightarrow> nat" where
  "record_count existing =
     (case existing of Records rs \<Rightarrow> length rs | Records_without_id n \<Rightarrow> n)"

text \<open>Lines 105 to 113: the prior results; the bare \<open>except\<close> swallows a failed read.\<close>

definition load_existing :: "string \<Rightarrow> world \<Rightarrow> loaded \<times> world" where
  "load_existing summary_file w =
     (if os_path_exists w summary_file then
        (case files w summary_file of
           None \<Rightarrow> (Records [], w)
         | Some c \<Rightarrow>
             (case read_summary c of
                Inr existing_results \<Rightarrow>
                  (existing_results,
                   print [Str (''Loaded '' @ str_nat (record_count existing_results)
                               @ '' existing results from summary file'')] w)
              | Inl e \<Rightarrow>
                  (Records [],
                   print [Str ''Could not load existing summary file, starting fresh''] w)))
      else (Records [], w))"

text \<open>
  Lines 119 and 120 on the loaded records: an empty list is skipped by
  \<open>if existing_results:\<close>; otherwise \<open>result['kepler_id']\<close> raises \<open>KeyError\<close> on
  records without that key, outside any \<open>try\<close>.
\<close>

definition keyed_records :: "loaded \<Rightarrow> string + fetch_result list" where
  "keyed_records existing =
     (case existing of
        Records rs \<Rightarrow> Inr rs
      | Records_without_id n \<Rightarrow> if n = 0 then Inr [] else Inl ''KeyError: kepler_id'')"

text \<open>Line 116: the identifiers of the chosen column, as strings.\<close>

definition all_ids :: "table \<Rightarrow> string \<Rightarrow> string list" where
  "all_ids df_input koi_column =
     (case map_of df_input koi_column of None \<Rightarrow> [] | Some cells \<Rightarrow> map py_str cells)"

text \<open>Lines 119 to 128: drop the identifiers the prior summary already lists.\<close>

definition summary_pass ::
  "string list \<Rightarrow> fetch_result list \<Rightarrow> world \<Rightarrow> string list \<times> fetch_result list \<times> world" where
  "summary_pass all_kepler_ids existing_results w =
     (if existing_results \<noteq> [] then
        let processed_ids = map (\<lambda>result. py_str (kepler_id result)) existing_results;
            kepler_ids = filter (\<lambda>kid. kid \<notin> set processed_ids) all_kepler_ids
        in (kepler_ids, existing_results,
            print [Str (''Skipping '' @ str_nat (length (remdups processed_ids))
                        @ '' already processed IDs'')] w)
      else (all_kepler_ids, [], w))"

text \<open>
  Lines 132 to 149: drop the identifiers whose file exists, adding a row for each. The
  identifier of such a row is read back from the file name.
\<close>

definition id_of_path :: "string \<Rightarrow> string" where
  "id_of_path file_path =
     py_replace ''_lightkurve.csv'' [] (py_replace ''kepler_'' [] (os_path_basename file_path))"

definition found_row :: "string \<Rightarrow> fetch_result" where
  "found_row file_path =
     \<lparr>kepler_id = PyStr (id_of_path file_path), success = True,
      output_file = Some file_path, status = ''Found existing file''\<rparr>"

definition disk_pass ::
  "string \<Rightarrow> string list \<Rightarrow> fetch_result list \<Rightarrow> world
     \<Rightarrow> string list \<times> fetch_result list \<times> world" where
  "disk_pass output_dir kepler_ids results w =
     (let files_to_check = map (\<lambda>kid. os_path_join output_dir (artifact_name kid)) kepler_ids;
          existing_files = filter (os_path_exists w) files_to_check
      in if existing_files \<noteq> [] then
           let w1 = print [Str (''Found '' @ str_nat (length existing_files)
                     @ '' additional files that already exist but weren'' @ [CHR 0x27]
                     @ ''t in summary'')] w;
               results1 = results @ map found_row existing_files;
               processed_file_ids = set (map id_of_path existing_files)
           in (filter (\<lambda>kid. kid \<notin> processed_file_ids) kepler_ids, results1, w1)
         else (kepler_ids, results, w))"

text \<open>Lines 119 to 149 together: the work list and the rows known before any download.\<close>

definition build_work_list ::
  "string \<Rightarrow> string list \<Rightarrow> fetch_result list \<Rightarrow> world
     \<Rightarrow> string list \<times> fetch_result list \<times> world" where
  "build_work_list output_dir all_kepler_ids existing_results w =
     (let (kepler_ids, results, w1) = summary_pass all_kepler_ids existing_results w
      in disk_pass output_dir kepler_ids results w1)"

text \<open>Lines 152 to 155: the optional limit, which the source leaves unset.\<close>

definition limit :: "nat option" where
  "limit = None"

definition apply_limit :: "string list \<Rightarrow> world \<Rightarrow> string list \<times> world" where
  "apply_limit kepler_ids w =
     (case limit of
        None \<Rightarrow> (kepler_ids, w)
      | Some n \<Rightarrow>
          if n \<noteq> 0 then
            (take n kepler_ids,
             print [Str (''Processing only the first '' @ str_nat n @ '' Kepler IDs'')] w)
          else (kepler_ids, w))"

text \<open>Lines 178 to 183: the row the dispatcher records when a future raises.\<close>

definition exception_fallback :: "string \<Rightarrow> string \<Rightarrow> fetch_result" where
  "exception_fallback kid exc =
     \<lparr>kepler_id = PyStr kid, success = False, output_file = None,
      status = ''Exception: '' @ exc\<rparr>"

definition save_summary :: "string \<Rightarrow> fetch_result list \<Rightarrow> world \<Rightarrow> world" where
  "save_summary summary_file results w = write_file summary_file (Csv_summary results) w"

text \<open>
  Lines 172 to 190: the loop over the completed futures, in completion order. The source
  fixes \<open>save_interval\<close> at 50; it is a parameter here, and positive (Python's \<open>%\<close>
  raises on a zero divisor). \<open>n_ids\<close> is \<open>len(kepler_ids)\<close>.
\<close>

fun dispatch ::
  "('h, 'lc) library \<Rightarrow> string \<Rightarrow> string \<Rightarrow> nat \<Rightarrow> nat \<Rightarrow> string list
     \<Rightarrow> fetch_result list \<Rightarrow> nat \<Rightarrow> world \<Rightarrow> fetch_result list \<times> nat \<times> world" where
  "dispatch lib output_dir summary_file save_interval n_ids [] results completed_count w =
     (results, completed_count, w)"
| "dispatch lib output_dir summary_file save_interval n_ids (kid # rest) results completed_count w =
     (let (future, w1) = download_lightkurve_data lib (PyStr kid) output_dir w;
          results1 = results @ [case future of
                                  Inr result \<Rightarrow> result
                                | Inl exc \<Rightarrow> exception_fallback kid exc];
          completed_count1 = completed_count + 1;
          w2 = (if completed_count1 mod save_interval = 0 then
                  print [Str (''Intermediate progress saved: '' @ str_nat completed_count1
                              @ ''/'' @ str_nat n_ids @ '' completed'')]
                    (save_summary summary_file results1 w1)
                else w1)
      in dispatch lib output_dir summary_file save_interval n_ids rest results1 completed_count1 w2)"

text \<open>
  \<open>main\<close>. Creating the output directory is not modelled (only files are). The report
  printed after the final write is not modelled either, except that computing it from an
  empty summary raises \<open>KeyError\<close>: an empty data frame has no \<open>success\<close> column.
\<close>

definition main :: "env \<Rightarrow> ('h, 'lc) library \<Rightarrow> world \<Rightarrow> outcome \<times> fetch_result list \<times> world" where
  "main e lib w =
     (let output_dir = ''lightkurve_data'';
          summary_file = os_path_join output_dir ''kepler_lightkurve_summary.csv''
      in case input_table e of
           Inl exc \<Rightarrow> (Crashed exc, [], w)
         | Inr df_input \<Rightarrow>
             (case choose_column e df_input w of
                (None, w1) \<Rightarrow> (Exited, [], w1)
              | (Some koi_column, w1) \<Rightarrow>
                  (let w2 = print [Str (''Using column '' @ quoted koi_column @ '' for Kepler IDs'')] w1;
                       (existing, w3) = load_existing summary_file w2;
                       all_kepler_ids = all_ids df_input koi_column
                   in case keyed_records existing of
                        Inl exc \<Rightarrow> (Crashed exc, [], w3)
                      | Inr existing_results \<Rightarrow>
                          (let (kepler_ids1, results1, w5) =
                                 build_work_list output_dir all_kepler_ids existing_results w3;
                               (kepler_ids2, w6) = apply_limit kepler_ids1 w5;
                               w7 = print [Str (''Preparing to download data for ''
                                                @ str_nat (length kepler_ids2) @ '' Kepler IDs'')] w6;
                               save_interval = 50;
                               (results2, completed_count, w8) =
                                 dispatch lib output_dir summary_file save_interval
                                   (length kepler_ids2) (as_completed e kepler_ids2) results1 0 w7;
                               w9 = save_summary summary_file results2 w8
                           in if results2 = [] then (Crashed ''KeyError: success'', results2, w9)
                              else (Completed, results2, w9)))))"

section \<open>The label standardisation script\<close>

text \<open>
  \<open>standardize_dispositions.py\<close> rewrites the disposition column of five CSV files in
  place. A file is its list of lines. The store holds the files and a journal of the
  completed writes (oldest first). A cell of a data frame is a string or missing (NaN).
\<close>

type_synonym cell = "string option"

type_synonym frame = "(string \<times> cell list) list"

record store =
  disk :: "string \<rightharpoonup> string list"
  journal :: "(string \<times> string list) list"

record file_info =
  path :: string
  name :: string
  column :: string
  skip_rows :: nat
  mapping :: "(string \<times> string) list"

text \<open>
  What pandas does is given from outside: \<open>read_csv\<close> parses lines into a frame or
  raises, \<open>to_csv\<close> renders a frame as lines, and \<open>write_fault\<close> says whether writing
  a path raises and what the interrupted write leaves at the path (\<open>None\<close>: the file is
  untouched).
\<close>

record pandas =
  read_csv :: "string list \<Rightarrow> string + frame"
  to_csv :: "frame \<Rightarrow> string list"
  write_fault :: "string \<Rightarrow> (string \<times> string list option) option"

text \<open>
  What the machine does is given from outside as well: \<open>copy_fault src dst\<close> says
  whether \<open>shutil.copy2\<close> from \<open>src\<close> to \<open>dst\<close> raises (a full disk, a missing
  permission) and what the interrupted copy leaves at the target (\<open>None\<close>: nothing was
  written); \<open>print_fault p line\<close> says whether the call of \<open>print\<close> at a source line
  raises while the file \<open>p\<close> is processed (a console that cannot encode a character, a
  closed stream). What is printed is not modelled.
\<close>

record machine =
  copy_fault :: "string \<Rightarrow> string \<Rightarrow> (string \<times> string list option) option"
  print_fault :: "string \<Rightarrow> nat \<Rightarrow> string option"

definition put :: "string \<Rightarrow> string list \<Rightarrow> store \<Rightarrow> store" where
  "put p ls st = st\<lparr>disk := (disk st)(p \<mapsto> ls), journal := journal st @ [(p, ls)]\<rparr>"

text \<open>\<open>shutil.copy2\<close>: raises when the source is missing or the copy fails, else
  overwrites the target.\<close>

definition copy2 :: "machine \<Rightarrow> string \<Rightarrow> string \<Rightarrow> store \<Rightarrow> (string + unit) \<times> store" where
  "copy2 m src dst st =
     (case disk st src of
        None \<Rightarrow> (Inl ''FileNotFoundError'', st)
      | Some ls \<Rightarrow>
          (case copy_fault m src dst of
             Some (e, left) \<Rightarrow>
               (Inl e, case left of None \<Rightarrow> st | Some partial \<Rightarrow> put dst partial st)
           | None \<Rightarrow> (Inr (), put dst ls st)))"

text \<open>A call of \<open>print\<close> at a source line, and sequencing of steps that may raise.\<close>

definition say :: "machine \<Rightarrow> string \<Rightarrow> nat \<Rightarrow> string + unit" where
  "say m p line = (case print_fault m p line of Some e \<Rightarrow> Inl e | None \<Rightarrow> Inr ())"

definition then_do :: "string + 'a \<Rightarrow> ('a \<Rightarrow> string + 'b) \<Rightarrow> string + 'b" where
  "then_do x f = (case x of Inl e \<Rightarrow> Inl e | Inr v \<Rightarrow> f v)"

text \<open>\<open>Series.map\<close> with a dictionary: a value without an entry, or a missing value,
  becomes missing.\<close>

definition map_cell :: "(string \<times> string) list \<Rightarrow> cell \<Rightarrow> cell" where
  "map_cell m c = (case c of None \<Rightarrow> None | Some v \<Rightarrow> map_of m v)"

fun set_cells :: "string \<Rightarrow> cell list \<Rightarrow> frame \<Rightarrow> frame" where
  "set_cells c vs [] = [(c, vs)]"
| "set_cells c vs ((c', vs') # rest) =
     (if c' = c then (c, vs) # rest else (c', vs') # set_cells c vs rest)"

text \<open>
  How the \<open>try\<close> block of one loop iteration ends when no exception is raised: the
  file was rewritten and read back, or values could not be mapped and the iteration was
  left with \<open>continue\<close> before any rewrite.
\<close>

datatype step = Updated | Unmapped nat

text \<open>
  Lines 108 to 151, between the backup and the rewrite: read the file, map the column,
  count what could not be mapped. The result is the number of unmapped values if there
  are any, else the lines to write. Nothing is written here.
\<close>

definition prepare ::
  "pandas \<Rightarrow> machine \<Rightarrow> string \<Rightarrow> file_info \<Rightarrow> store \<Rightarrow> string + (nat + string list)" where
  "prepare pd m timestamp fi st =
     then_do (say m (path fi) 108) (\<lambda>_.
       case disk st (path fi) of
         None \<Rightarrow> Inl ''FileNotFoundError''
       | Some ls \<Rightarrow>
           then_do (read_csv pd (if skip_rows fi > 0 then drop (skip_rows fi) ls else ls)) (\<lambda>df.
           then_do (say m (path fi) 118) (\<lambda>_.
           then_do (say m (path fi) 122) (\<lambda>_.
             case map_of df (column fi) of
               None \<Rightarrow> Inl (''KeyError: '' @ column fi)
             | Some cells \<Rightarrow>
                 then_do (say m (path fi) 124) (\<lambda>_.
                   let mapped = map (map_cell (mapping fi)) cells;
                       df1 = set_cells (column fi) mapped df;
                       unmapped = length (filter (\<lambda>c. c = None) mapped)
                   in if unmapped > 0 then
                        then_do (say m (path fi) 132) (\<lambda>_.
                        then_do (say m (path fi) 134) (\<lambda>_. Inr (Inl unmapped)))
                      else
                        then_do (say m (path fi) 138) (\<lambda>_.
                        then_do (say m (path fi) 140) (\<lambda>_.
                          if skip_rows fi > 0 then
                            (case disk st (py_replace (''.backup_'' @ timestamp) [] (path fi)) of
                               None \<Rightarrow> Inl ''FileNotFoundError''
                             | Some original_file \<Rightarrow>
                                 Inr (Inr (take (skip_rows fi) original_file @ to_csv pd df1)))
                          else Inr (Inr (to_csv pd df1)))))))))"

text \<open>Lines 165 to 171, after the rewrite: report, read the file back, report.\<close>

definition verify :: "pandas \<Rightarrow> machine \<Rightarrow> file_info \<Rightarrow> string list \<Rightarrow> string + unit" where
  "verify pd m fi new_lines =
     then_do (say m (path fi) 165) (\<lambda>_.
     then_do (read_csv pd (drop (skip_rows fi) new_lines)) (\<lambda>verification_df.
       case map_of verification_df (column fi) of
         None \<Rightarrow> Inl (''KeyError: '' @ column fi)
       | Some _ \<Rightarrow> then_do (say m (path fi) 170) (\<lambda>_. say m (path fi) 171)))"

text \<open>Lines 105 to 171: the \<open>try\<close> block. \<open>Inl e\<close> is an exception raised in it.\<close>

definition try_body ::
  "pandas \<Rightarrow> machine \<Rightarrow> string \<Rightarrow> file_info \<Rightarrow> store \<Rightarrow> (string + step) \<times> store" where
  "try_body pd m timestamp fi st =
     (let file_path = path fi;
          backup_path = file_path @ ''.backup_'' @ timestamp
      in case copy2 m file_path backup_path st of
           (Inl e, st1) \<Rightarrow> (Inl e, st1)
         | (Inr _, st1) \<Rightarrow>
             (case prepare pd m timestamp fi st1 of
                Inl e \<Rightarrow> (Inl e, st1)
              | Inr (Inl unmapped) \<Rightarrow> (Inr (Unmapped unmapped), st1)
              | Inr (Inr new_lines) \<Rightarrow>
                  (case write_fault pd file_path of
                     Some (e, left) \<Rightarrow>
                       (Inl e, case left of None \<Rightarrow> st1 | Some partial \<Rightarrow> put file_path partial st1)
                   | None \<Rightarrow>
                       (let st2 = put file_path new_lines st1
                        in case verify pd m fi new_lines of
                             Inl e \<Rightarrow> (Inl e, st2)
                           | Inr _ \<Rightarrow> (Inr Updated, st2)))))"

text \<open>
  One iteration of the loop over the files (lines 94 to 178): skip a missing file, run
  the \<open>try\<close> block, and in the handler report the error and then copy the backup over
  the file if a file exists at the backup path. \<open>Aborted\<close> is an exception raised
  outside the \<open>try\<close> block or in the handler; it ends the script.
\<close>

datatype result = Not_found | Done step | Failed string | Aborted string

definition process_file ::
  "pandas \<Rightarrow> machine \<Rightarrow> string \<Rightarrow> file_info \<Rightarrow> store \<Rightarrow> result \<times> store" where
  "process_file pd m timestamp fi st =
     (let file_path = path fi in
      if disk st file_path = None then
        (case say m file_path 98 of Inl e \<Rightarrow> (Aborted e, st) | Inr _ \<Rightarrow> (Not_found, st))
      else
        case then_do (say m file_path 101) (\<lambda>_. say m file_path 102) of
          Inl e \<Rightarrow> (Aborted e, st)
        | Inr _ \<Rightarrow>
            (case try_body pd m timestamp fi st of
               (Inr s, st') \<Rightarrow> (Done s, st')
             | (Inl e, st') \<Rightarrow>
                 (let backup_path = file_path @ ''.backup_'' @ timestamp in
                  case say m file_path 174 of
                    Inl e2 \<Rightarrow> (Aborted e2, st')
                  | Inr _ \<Rightarrow>
                      if disk st' backup_path \<noteq> None then
                        (case copy2 m backup_path file_path st' of
                           (Inl e2, st'') \<Rightarrow> (Aborted e2, st'')
                         | (Inr _, st'') \<Rightarrow>
                             (case say m file_path 178 of
                                Inl e3 \<Rightarrow> (Aborted e3, st'')
                              | Inr _ \<Rightarrow> (Failed e, st'')))
                      else (Failed e, st'))))"

fun process_all ::
  "pandas \<Rightarrow> machine \<Rightarrow> string \<Rightarrow> file_info list \<Rightarrow> store \<Rightarrow> result list \<times> store" where
  "process_all pd m timestamp [] st = ([], st)"
| "process_all pd m timestamp (fi # rest) st =
     (case process_file pd m timestamp fi st of
        (Aborted e, st') \<Rightarrow> ([Aborted e], st')
      | (r, st') \<Rightarrow>
          (case process_all pd m timestamp rest st' of (rs, st'') \<Rightarrow> (r # rs, st'')))"

definition koi_mapping :: "(string \<times> string) list" where
  "koi_mapping =
     [(''CONFIRMED'', ''candidate''), (''CANDIDATE'', ''candidate''),
      (''FALSE POSITIVE'', ''non-candidate'')]"

definition k2_mapping :: "(string \<times> string) list" where
  "k2_mapping =
     [(''CONFIRMED'', ''candidate''), (''CANDIDATE'', ''candidate''),
      (''FALSE POSITIVE'', ''non-candidate''), (''REFUTED'', ''non-candidate'')]"

definition tess_mapping :: "(string \<times> string) list" where
  "tess_mapping =
     [(''FP'', ''non-candidate''), (''FA'', ''non-candidate''), (''PC'', ''candidate''),
      (''CP'', ''candidate''), (''KP'', ''candidate''), (''APC'', ''candidate'')]"

definition files_to_process :: "string \<Rightarrow> file_info list" where
  "files_to_process base_dir =
     [\<lparr>path = os_path_join base_dir ''KOI Selected Data.csv'', name = ''KOI Selected Data'',
       column = ''koi_disposition'', skip_rows = 33, mapping = koi_mapping\<rparr>,
      \<lparr>path = os_path_join (os_path_join base_dir ''classroom-data'') ''KOI-Classroom-Data.csv'',
       name = ''KOI Classroom Data'', column = ''koi_disposition'', skip_rows = 0,
       mapping = koi_mapping\<rparr>,
      \<lparr>path = os_path_join base_dir ''K2 Selected Data.csv'', name = ''K2 Selected Data'',
       column = ''disposition'', skip_rows = 35, mapping = k2_mapping\<rparr>,
      \<lparr>path = os_path_join (os_path_join base_dir ''classroom-data'') ''K2-Classroom-Data.csv'',
       name = ''K2 Classroom Data'', column = ''disposition'', skip_rows = 0,
       mapping = k2_mapping\<rparr>,
      \<lparr>path = os_path_join (os_path_join base_dir ''classroom-data'') ''TESS-Classroom-Data.csv'',
       name = ''TESS Classroom Data'', column = ''tfopwg_disp'', skip_rows = 0,
       mapping = tess_mapping\<rparr>]"

text \<open>\<open>standardize_dispositions\<close>, up to the end of the loop.\<close>

definition standardize_dispositions ::
  "pandas \<Rightarrow> machine \<Rightarrow> string \<Rightarrow> string \<Rightarrow> store \<Rightarrow> result list \<times> store" where
  "standardize_dispositions pd m base_dir timestamp st =
     process_all pd m timestamp (files_to_process base_dir) st"

section \<open>Names used in the statements\<close>

text \<open>The path of the file the Worker writes for an identifier, and the row it returns
  when that file is already there.\<close>

definition artifact_path :: "string \<Rightarrow> pyval \<Rightarrow> string" where
  "artifact_path output_dir kid = os_path_join output_dir (artifact_name (strip (py_str kid)))"

definition skipped_row :: "string \<Rightarrow> pyval \<Rightarrow> fetch_result" where
  "skipped_row output_dir kid =
     \<lparr>kepler_id = PyStr (strip (py_str kid)), success = True,
      output_file = Some (artifact_path output_dir kid),
      status = ''Skipped (already exists)''\<rparr>"

text \<open>Concrete libraries and worlds for the examples: an archive whose download times
  out, one that answers every search with a one-row light curve, a world without files
  and a world in which the light curve of identifier 7 is already on disk.\<close>

definition failing_library :: "(unit, unit) library" where
  "failing_library =
     \<lparr>search_lightcurve = (\<lambda>t. Inr [()]), download = (\<lambda>h. Inl ''timed out''),
      to_pandas = (\<lambda>lc. Inr \<lparr>nrows = 0, cols = []\<rparr>), to_csv_fault = (\<lambda>p. None)\<rparr>"

definition working_library :: "(string, string) library" where
  "working_library =
     \<lparr>search_lightcurve = (\<lambda>t. Inr [t]), download = (\<lambda>h. Inr h),
      to_pandas = (\<lambda>lc. Inr \<lparr>nrows = 1, cols = [(''flux'', [''1.0''])]\<rparr>),
      to_csv_fault = (\<lambda>p. None)\<rparr>"

definition empty_world :: world where
  "empty_world = \<lparr>files = Map.empty, writes = [], queries = [], stdout = []\<rparr>"

definition world_with_artifact :: world where
  "world_with_artifact =
     \<lparr>files = [''out/kepler_7_lightkurve.csv'' \<mapsto> Csv_lightcurve \<lparr>nrows = 0, cols = []\<rparr>],
      writes = [], queries = [], stdout = []\<rparr>"

text \<open>An input table without the column \<open>kepid\<close>, and an operator who answers
  with a column that is not there either.\<close>

definition env_without_kepid :: env where
  "env_without_kepid =
     \<lparr>input_table = Inr [(''name'', [PyStr ''a'']), (''koi'', [PyInt 7])],
      operator_reply = ''kepler'', completion_time = (\<lambda>i. i)\<rparr>"

text \<open>A prior summary listing identifiers 11 (as an integer, as a summary read back
  from disk may hold it) and 12.\<close>

definition prior_summary :: "fetch_result list" where
  "prior_summary =
     [\<lparr>kepler_id = PyInt 11, success = True,
       output_file = Some ''lightkurve_data/kepler_11_lightkurve.csv'', status = ''Downloaded''\<rparr>,
      \<lparr>kepler_id = PyStr ''12'', success = False, output_file = None,
       status = ''No light curve found''\<rparr>]"

text \<open>The summaries written to the summary file so far, oldest first.\<close>

definition summary_writes :: "string \<Rightarrow> world \<Rightarrow> fetch_result list list" where
  "summary_writes summary_file w =
     List.map_filter
       (\<lambda>(p, c). case c of Csv_summary rs \<Rightarrow> if p = summary_file then Some rs else None
                          | _ \<Rightarrow> None)
       (writes w)"

text \<open>The summary file of \<open>main\<close>.\<close>

definition the_summary_file :: string where
  "the_summary_file = os_path_join ''lightkurve_data'' ''kepler_lightkurve_summary.csv''"

text \<open>An input table with two identifiers; the second download completes first.\<close>

definition env_two :: env where
  "env_two =
     \<lparr>input_table = Inr [(''kepid'', [PyInt 1, PyInt 2])],
      operator_reply = [], completion_time = (\<lambda>i. 10 - i)\<rparr>"

text \<open>A world in which exactly one file exists, a light curve at the given path.\<close>

definition world_with_file :: "string \<Rightarrow> world" where
  "world_with_file p =
     \<lparr>files = [p \<mapsto> Csv_lightcurve \<lparr>nrows = 0, cols = []\<rparr>],
      writes = [], queries = [], stdout = []\<rparr>"


definition world_with_other_table :: world where
  "world_with_other_table =
     \<lparr>files = [''lightkurve_data/kepler_lightkurve_summary.csv'' \<mapsto> Csv_other 1],
      writes = [], queries = [], stdout = []\<rparr>"

text \<open>An input table whose only identifier is a text written with a trailing blank.\<close>

definition env_padded :: env where
  "env_padded =
     \<lparr>input_table = Inr [(''kepid'', [PyStr ''K7 ''])],
      operator_reply = [], completion_time = (\<lambda>i. i)\<rparr>"

text \<open>
  Small stand-ins for pandas (one column, the header in the first line), one whose
  writes succeed and one whose writes fail on a full disk after emptying the file;
  a machine without faults, one on which the disk is full when the backup is copied, so
  that the backup is created and stays empty, and one whose output stream is closed by
  its reader once the file has been rewritten; and a file to process.
\<close>

definition plain_pandas :: pandas where
  "plain_pandas =
     \<lparr>read_csv = (\<lambda>ls. case ls of [] \<Rightarrow> Inl ''EmptyDataError''
                              | h # vs \<Rightarrow> Inr [(h, map Some vs)]),
      to_csv = (\<lambda>df. case df of [] \<Rightarrow> []
                             | (c, cells) # _ \<Rightarrow> c # map (\<lambda>v. case v of None \<Rightarrow> [] | Some s \<Rightarrow> s) cells),
      write_fault = (\<lambda>p. None)\<rparr>"

definition full_disk_pandas :: pandas where
  "full_disk_pandas =
     plain_pandas\<lparr>write_fault := (\<lambda>p. Some (''No space left on device'', Some []))\<rparr>"

definition sound_machine :: machine where
  "sound_machine = \<lparr>copy_fault = (\<lambda>src dst. None), print_fault = (\<lambda>p line. None)\<rparr>"

definition disk_fills_during_backup :: machine where
  "disk_fills_during_backup =
     \<lparr>copy_fault =
        (\<lambda>src dst. if src = ''KOI-Classroom-Data.csv''
                    then Some (''No space left on device'', Some [])
                    else None),
      print_fault = (\<lambda>p line. None)\<rparr>"

definition stream_closes_after_rewrite :: machine where
  "stream_closes_after_rewrite =
     \<lparr>copy_fault = (\<lambda>src dst. None),
      print_fault = (\<lambda>p line. if 165 \<le> line then Some ''BrokenPipeError'' else None)\<rparr>"

definition classroom_info :: file_info where
  "classroom_info =
     \<lparr>path = ''KOI-Classroom-Data.csv'', name = ''KOI Classroom Data'',
      column = ''koi_disposition'', skip_rows = 0, mapping = koi_mapping\<rparr>"

definition classroom_store :: store where
  "classroom_store =
     \<lparr>disk = [''KOI-Classroom-Data.csv'' \<mapsto> [''koi_disposition'', ''CONFIRMED'', ''FALSE POSITIVE'']],
      journal = []\<rparr>"

text \<open>
  The exception, if any, that the third-party calls raise for a search term and an
  output file, taken in the order in which the Worker makes them.
\<close>

definition library_raises :: "('h, 'lc) library \<Rightarrow> string \<Rightarrow> string \<Rightarrow> string option" where
  "library_raises lib search_term output_path =
     (case search_lightcurve lib search_term of
        Inl e \<Rightarrow> Some e
      | Inr [] \<Rightarrow> None
      | Inr (h # _) \<Rightarrow>
          (case download lib h of
             Inl e \<Rightarrow> Some e
           | Inr lc \<Rightarrow>
               (case to_pandas lib lc of
                  Inl e \<Rightarrow> Some e
                | Inr df \<Rightarrow> map_option fst (to_csv_fault lib output_path))))"

text \<open>
  The identifiers a summary lists, as the strings the source compares; and what it
  means for an identifier to be in cleaned form: \<open>strip\<close> leaves it unchanged and the
  builder reads it back unchanged from its file name.
\<close>

definition summary_ids :: "fetch_result list \<Rightarrow> string list" where
  "summary_ids rs = map (\<lambda>r. py_str (kepler_id r)) rs"

definition clean_id :: "string \<Rightarrow> string \<Rightarrow> bool" where
  "clean_id output_dir kid =
     (strip kid = kid \<and> id_of_path (os_path_join output_dir (artifact_name kid)) = kid)"

section \<open>Properties of the Worker\<close>

lemma worker_returns:
  "\<exists>r w'. download_lightkurve_data lib kid output_dir w = (Inr r, w')"
  unfolding download_lightkurve_data_def Let_def
  by (cases "try_block lib (strip (py_str kid)) output_dir w") (auto split: sum.splits)

lemma worker_existing:
  "os_path_exists w (artifact_path output_dir kid) \<Longrightarrow>
   download_lightkurve_data lib kid output_dir w = (Inr (skipped_row output_dir kid), w)"
  by (simp add: download_lightkurve_data_def try_block_def Let_def artifact_path_def
      skipped_row_def)

lemma worker_success_artifact:
  assumes "download_lightkurve_data lib kid output_dir w = (Inr r, w')" and "success r"
  shows "os_path_exists w' (artifact_path output_dir kid)"
  using assms
  by (auto simp: download_lightkurve_data_def try_block_def Let_def artifact_path_def
      os_path_exists_def write_file_def
      split: if_splits sum.splits list.splits option.splits prod.splits)

lemma worker_row_shape:
  assumes "download_lightkurve_data lib kid output_dir w = (x, w')"
  shows "\<exists>r. x = Inr r \<and> kepler_id r = PyStr (strip (py_str kid)) \<and>
           (success r = (output_file r \<noteq> None))"
  using assms
  by (auto simp: download_lightkurve_data_def try_block_def Let_def
      split: if_splits sum.splits list.splits option.splits prod.splits)

lemma strip_7: "strip ''7'' = ''7''"
  by (simp add: strip_def py_isspace_def)

lemma artifact_path_7: "artifact_path ''out'' (PyStr ''7'') = ''out/kepler_7_lightkurve.csv''"
  by (simp add: artifact_path_def strip_7 os_path_join_def artifact_name_def startswith_def)

lemma try_block_raises:
  assumes "\<not> os_path_exists w (artifact_path output_dir kid)"
  shows "(fst (try_block lib (strip (py_str kid)) output_dir w) = Inl e) =
         (library_raises lib (''KIC '' @ strip (py_str kid)) (artifact_path output_dir kid) = Some e)"
  using assms
  by (auto simp: try_block_def library_raises_def artifact_path_def Let_def
      split: sum.splits list.splits option.splits)

text \<open>
  C1. The Worker returns exactly one FetchResult and no exception leaves it. Whenever a
  statement of its \<open>try\<close> block raises an exception with message \<open>e\<close>, as
  happens when the file is not there yet and the search, the download, the conversion or
  the writing raises \<open>e\<close>, the result is the row with \<open>success = False\<close>, no output
  file and the non-empty status \<open>Error: e\<close>.
\<close>

theorem worker_contains_failures:
  "\<exists>r w'. download_lightkurve_data lib kid output_dir w = (Inr r, w') \<and>
     (\<forall>e. fst (try_block lib (strip (py_str kid)) output_dir w) = Inl e \<or>
          \<not> os_path_exists w (artifact_path output_dir kid) \<and>
          library_raises lib (''KIC '' @ strip (py_str kid)) (artifact_path output_dir kid) = Some e
        \<longrightarrow>
        r = \<lparr>kepler_id = PyStr (strip (py_str kid)), success = False,
             output_file = None, status = ''Error: '' @ e\<rparr> \<and> status r \<noteq> [])"
proof -
  obtain x w' where t: "try_block lib (strip (py_str kid)) output_dir w = (x, w')"
    by (cases "try_block lib (strip (py_str kid)) output_dir w")
  show ?thesis
  proof (cases x)
    case (Inl e)
    then show ?thesis
      using t try_block_raises [of w output_dir kid lib]
      by (auto simp: download_lightkurve_data_def Let_def)
  next
    case (Inr r)
    then show ?thesis
      using t try_block_raises [of w output_dir kid lib]
      by (auto simp: download_lightkurve_data_def Let_def)
  qed
qed

theorem worker_contains_failures_witness:
  "\<not> os_path_exists empty_world (artifact_path ''out'' (PyStr ''7'')) \<and>
   library_raises failing_library (''KIC '' @ strip (py_str (PyStr ''7'')))
     (artifact_path ''out'' (PyStr ''7'')) = Some ''timed out'' \<and>
   fst (try_block failing_library (strip (py_str (PyStr ''7''))) ''out'' empty_world)
     = Inl ''timed out'' \<and>
   fst (download_lightkurve_data failing_library (PyStr ''7'') ''out'' empty_world) =
     Inr \<lparr>kepler_id = PyStr ''7'', success = False, output_file = None,
          status = ''Error: timed out''\<rparr>"
  using worker_contains_failures [of failing_library "PyStr ''7''" "''out''" empty_world]
  by (auto simp: strip_7 try_block_def failing_library_def empty_world_def os_path_exists_def
      os_path_join_def artifact_name_def startswith_def Let_def library_raises_def
      artifact_path_def)

text \<open>
  C2, as the claim states it, gives the status of the short-circuit as
  \<open>skipped (already exists)\<close>. With the light curve of identifier 7 on disk the Worker
  does not return that row: its status is \<open>Skipped (already exists)\<close>.
\<close>

theorem worker_skip_label_counterexample:
  "os_path_exists world_with_artifact (artifact_path ''out'' (PyStr ''7'')) \<and>
   fst (download_lightkurve_data failing_library (PyStr ''7'') ''out'' world_with_artifact) \<noteq>
     Inr \<lparr>kepler_id = PyStr ''7'', success = True,
          output_file = Some ''out/kepler_7_lightkurve.csv'',
          status = ''skipped (already exists)''\<rparr>"
  by (simp add: artifact_path_7 os_path_exists_def world_with_artifact_def
      download_lightkurve_data_def try_block_def strip_7 Let_def
      os_path_join_def artifact_name_def startswith_def)

text \<open>
  C2, amended. If the file of an identifier exists, the Worker returns the row with
  \<open>success = True\<close> and status \<open>Skipped (already exists)\<close> and leaves the world as
  it was: no search is sent, no file is written, no content changes. After any call that
  reported success, a second call for the same identifier is of that kind.
\<close>

theorem worker_skips_existing:
  "(os_path_exists w (artifact_path output_dir kid) \<longrightarrow>
      download_lightkurve_data lib kid output_dir w = (Inr (skipped_row output_dir kid), w)) \<and>
   (\<forall>r1 w1. download_lightkurve_data lib kid output_dir w = (Inr r1, w1) \<and> success r1 \<longrightarrow>
      download_lightkurve_data lib kid output_dir w1 = (Inr (skipped_row output_dir kid), w1))"
  using worker_existing worker_success_artifact by blast

theorem worker_skips_existing_witness:
  "os_path_exists world_with_artifact (artifact_path ''out'' (PyStr ''7'')) \<and>
   download_lightkurve_data failing_library (PyStr ''7'') ''out'' world_with_artifact =
     (Inr (skipped_row ''out'' (PyStr ''7'')), world_with_artifact) \<and>
   success (skipped_row ''out'' (PyStr ''7''))"
  using worker_skips_existing [of world_with_artifact "''out''" "PyStr ''7''" failing_library]
  by (simp add: artifact_path_7 os_path_exists_def world_with_artifact_def skipped_row_def)

section \<open>Properties of the dispatcher\<close>

lemma dispatch_step:
  assumes "download_lightkurve_data lib (PyStr kid) output_dir w = (Inr r, w1)"
  shows "\<exists>w2. dispatch lib output_dir summary_file save_interval n_ids (kid # rest) results cnt w
           = dispatch lib output_dir summary_file save_interval n_ids rest (results @ [r]) (Suc cnt) w2"
  using assms by (auto simp: Let_def)

lemma dispatch_rows:
  "\<exists>new. fst (dispatch lib output_dir summary_file save_interval n_ids order results cnt w)
           = results @ new \<and> length new = length order \<and>
         list_all (\<lambda>r. success r = (output_file r \<noteq> None)) new"
proof (induction order arbitrary: results cnt w)
  case Nil
  then show ?case by simp
next
  case (Cons kid rest)
  obtain x w1 where d: "download_lightkurve_data lib (PyStr kid) output_dir w = (x, w1)"
    by (cases "download_lightkurve_data lib (PyStr kid) output_dir w")
  then obtain r where r: "x = Inr r" "success r = (output_file r \<noteq> None)"
    using worker_row_shape by blast
  obtain w2 where step:
    "dispatch lib output_dir summary_file save_interval n_ids (kid # rest) results cnt w
       = dispatch lib output_dir summary_file save_interval n_ids rest (results @ [r]) (Suc cnt) w2"
    using dispatch_step d r(1) by blast
  obtain new where new:
    "fst (dispatch lib output_dir summary_file save_interval n_ids rest (results @ [r]) (Suc cnt) w2)
       = (results @ [r]) @ new"
    "length new = length rest" "list_all (\<lambda>r. success r = (output_file r \<noteq> None)) new"
    using Cons.IH by blast
  show ?case
  proof (intro exI conjI)
    show "fst (dispatch lib output_dir summary_file save_interval n_ids (kid # rest) results cnt w)
            = results @ (r # new)"
      using step new(1) by simp
    show "length (r # new) = length (kid # rest)" using new(2) by simp
    show "list_all (\<lambda>r. success r = (output_file r \<noteq> None)) (r # new)"
      using new(3) r(2) by simp
  qed
qed

lemma dispatch_ids:
  "summary_ids (fst (dispatch lib output_dir sf N n_ids order results cnt w))
     = summary_ids results @ map strip order"
proof (induction order arbitrary: results cnt w)
  case Nil
  then show ?case by simp
next
  case (Cons kid rest)
  obtain x w1 where d: "download_lightkurve_data lib (PyStr kid) output_dir w = (x, w1)"
    by (cases "download_lightkurve_data lib (PyStr kid) output_dir w")
  then obtain r where r: "x = Inr r" "kepler_id r = PyStr (strip (py_str (PyStr kid)))"
    using worker_row_shape by blast
  obtain w2 where step:
    "dispatch lib output_dir sf N n_ids (kid # rest) results cnt w
       = dispatch lib output_dir sf N n_ids rest (results @ [r]) (Suc cnt) w2"
    using dispatch_step d r(1) by blast
  show ?case
    unfolding step using Cons.IH [of "results @ [r]" "Suc cnt" w2] r(2)
    by (simp add: summary_ids_def)
qed

text \<open>
  C9. In every row the Worker returns, in the row the dispatcher records when a future
  raises, and so in every row the dispatch loop appends, \<open>success\<close> holds exactly when
  \<open>output_file\<close> is not \<open>None\<close>.
\<close>

theorem fetch_result_success_iff_output:
  "(\<exists>r w'. download_lightkurve_data lib kid output_dir w = (Inr r, w') \<and>
        success r = (output_file r \<noteq> None)) \<and>
   success (exception_fallback k exc) = (output_file (exception_fallback k exc) \<noteq> None) \<and>
   list_all (\<lambda>r. success r = (output_file r \<noteq> None))
     (drop (length results)
        (fst (dispatch lib output_dir summary_file save_interval n_ids order results cnt w0)))"
proof (intro conjI)
  show "\<exists>r w'. download_lightkurve_data lib kid output_dir w = (Inr r, w') \<and>
        success r = (output_file r \<noteq> None)"
    using worker_row_shape [of lib kid output_dir w]
    by (cases "download_lightkurve_data lib kid output_dir w") auto
  show "success (exception_fallback k exc) = (output_file (exception_fallback k exc) \<noteq> None)"
    by (simp add: exception_fallback_def)
  obtain new where
    "fst (dispatch lib output_dir summary_file save_interval n_ids order results cnt w0)
       = results @ new"
    "list_all (\<lambda>r. success r = (output_file r \<noteq> None)) new"
    using dispatch_rows by blast
  then show "list_all (\<lambda>r. success r = (output_file r \<noteq> None))
     (drop (length results)
        (fst (dispatch lib output_dir summary_file save_interval n_ids order results cnt w0)))"
    by simp
qed

section \<open>Properties of the job runner\<close>

text \<open>
  C7. If the input table has no column \<open>kepid\<close>, the run names the missing column,
  lists the available columns and prompts for a substitute. If the answer is not a column
  either, the run prints that and returns: nothing was dispatched (no search sent, no
  file written, no row produced). If the answer is a column, the run goes on with it.
\<close>

theorem missing_column_stops_run:
  assumes "input_table e = Inr df_input" and "''kepid'' \<notin> set (columns df_input)"
  shows "(operator_reply e \<notin> set (columns df_input) \<longrightarrow>
            main e lib w =
              (Exited, [],
               w\<lparr>stdout := stdout w @
                  [Print [Str (''Column '' @ quoted ''kepid'' @ '' not found in the input CSV.'')],
                   Print [Str ''Available columns:'', StrList (columns df_input)],
                   Input ''Please enter the column name containing Kepler IDs: '',
                   Print [Str (''Column '' @ quoted (operator_reply e) @ '' not found. Exiting.'')]]\<rparr>)) \<and>
         (operator_reply e \<in> set (columns df_input) \<longrightarrow>
            fst (choose_column e df_input w) = Some (operator_reply e))"
  using assms by (simp add: main_def choose_column_def print_def Let_def)

theorem missing_column_stops_run_witness:
  "input_table env_without_kepid = Inr [(''name'', [PyStr ''a'']), (''koi'', [PyInt 7])] \<and>
   ''kepid'' \<notin> set (columns [(''name'', [PyStr ''a'']), (''koi'', [PyInt 7])]) \<and>
   operator_reply env_without_kepid \<notin> set (columns [(''name'', [PyStr ''a'']), (''koi'', [PyInt 7])]) \<and>
   fst (main env_without_kepid working_library empty_world) = Exited \<and>
   writes (snd (snd (main env_without_kepid working_library empty_world))) = [] \<and>
   queries (snd (snd (main env_without_kepid working_library empty_world))) = []"
  using missing_column_stops_run [of env_without_kepid
      "[(''name'', [PyStr ''a'']), (''koi'', [PyInt 7])]" working_library empty_world]
  by (simp add: env_without_kepid_def columns_def empty_world_def)

lemma summary_pass_ids:
  "fst (summary_pass all_kepler_ids existing_results w) =
     filter (\<lambda>kid. kid \<notin> set (map (\<lambda>result. py_str (kepler_id result)) existing_results))
       all_kepler_ids"
  by (simp add: summary_pass_def Let_def)

lemma summary_pass_results:
  "fst (snd (summary_pass all_kepler_ids existing_results w)) = existing_results"
  by (simp add: summary_pass_def Let_def)

lemma summary_pass_world:
  "files (snd (snd (summary_pass all_kepler_ids existing_results w))) = files w"
  by (simp add: summary_pass_def Let_def print_def)

lemma disk_pass_none:
  assumes "\<forall>kid \<in> set kepler_ids. \<not> os_path_exists w (os_path_join output_dir (artifact_name kid))"
  shows "disk_pass output_dir kepler_ids results w = (kepler_ids, results, w)"
proof -
  have "filter (os_path_exists w) (map (\<lambda>kid. os_path_join output_dir (artifact_name kid)) kepler_ids) = []"
    using assms by (auto simp: filter_empty_conv)
  then show ?thesis by (simp add: disk_pass_def Let_def)
qed

text \<open>
  C4. The summary pass removes from the input list exactly the identifiers whose string
  form equals the string form of an identifier of the prior summary. With a prior summary
  holding the identifiers A and B and the input list A, B, C, it leaves C alone; and, no
  file of C being on disk, the work list the builder hands on is exactly C.
\<close>

theorem resume_skips_summarised:
  assumes "set (map (\<lambda>result. py_str (kepler_id result)) existing_results) = {A, B}"
    and "C \<noteq> A" and "C \<noteq> B"
    and "\<not> os_path_exists w (os_path_join output_dir (artifact_name C))"
  shows "fst (summary_pass [A, B, C] existing_results w) = [C] \<and>
         fst (build_work_list output_dir [A, B, C] existing_results w) = [C] \<and>
         fst (summary_pass all_kepler_ids existing_results w) =
           filter (\<lambda>kid. kid \<noteq> A \<and> kid \<noteq> B) all_kepler_ids"
proof -
  have 1: "fst (summary_pass [A, B, C] existing_results w) = [C]"
    using assms(1-3) by (simp add: summary_pass_ids)
  have 3: "fst (summary_pass all_kepler_ids existing_results w) =
           filter (\<lambda>kid. kid \<noteq> A \<and> kid \<noteq> B) all_kepler_ids"
    using assms(1) by (simp add: summary_pass_ids)
  obtain ks rs w1 where sp: "summary_pass [A, B, C] existing_results w = (ks, rs, w1)"
    by (cases "summary_pass [A, B, C] existing_results w") auto
  have ks: "ks = [C]" using 1 sp by simp
  have "files w1 = files w" using summary_pass_world [of "[A, B, C]" existing_results w] sp by simp
  then have "\<forall>kid \<in> set ks. \<not> os_path_exists w1 (os_path_join output_dir (artifact_name kid))"
    using assms(4) ks by (simp add: os_path_exists_def)
  then have "disk_pass output_dir ks rs w1 = (ks, rs, w1)" by (rule disk_pass_none)
  then have 2: "fst (build_work_list output_dir [A, B, C] existing_results w) = [C]"
    using sp ks by (simp add: build_work_list_def)
  show ?thesis using 1 2 3 by simp
qed

lemma str_nat_11: "str_nat 11 = ''11''"
  by code_simp

theorem resume_skips_summarised_witness:
  "set (map (\<lambda>result. py_str (kepler_id result)) prior_summary) = {''11'', ''12''} \<and>
   ''13'' \<noteq> ''11'' \<and> ''13'' \<noteq> ''12'' \<and>
   \<not> os_path_exists empty_world (os_path_join ''lightkurve_data'' (artifact_name ''13'')) \<and>
   fst (build_work_list ''lightkurve_data'' [''11'', ''12'', ''13''] prior_summary empty_world)
     = [''13'']"
  using resume_skips_summarised [of prior_summary "''11''" "''12''" "''13''" empty_world
      "''lightkurve_data''" "[]"]
  by (simp add: prior_summary_def str_nat_11 os_path_exists_def empty_world_def)

lemma summary_writes_append:
  "writes w' = writes w @ ws \<Longrightarrow>
   summary_writes sf w' = summary_writes sf w @
     List.map_filter (\<lambda>(p, c). case c of Csv_summary rs \<Rightarrow> if p = sf then Some rs else None
                          | _ \<Rightarrow> None) ws"
  by (simp add: summary_writes_def map_filter_def)

lemma summary_writes_save:
  "summary_writes sf (save_summary sf rs w) = summary_writes sf w @ [rs]"
  by (simp add: summary_writes_def save_summary_def write_file_def map_filter_def)

lemma summary_writes_print [simp]:
  "summary_writes sf (print args w) = summary_writes sf w"
  by (simp add: summary_writes_def print_def)

lemma worker_summary_writes:
  assumes "download_lightkurve_data lib kid output_dir w = (x, w')"
  shows "summary_writes sf w' = summary_writes sf w"
  using assms
  by (auto simp: download_lightkurve_data_def try_block_def Let_def summary_writes_def
      write_file_def map_filter_def
      split: if_splits sum.splits list.splits option.splits prod.splits)

lemma upt_shift: "[Suc 0..<Suc (Suc n)] = Suc 0 # map Suc [Suc 0..<Suc n]"
  by (simp add: map_Suc_upt upt_conv_Cons del: upt_Suc)

lemma dispatch_checkpoints:
  assumes "0 < N"
  shows "summary_writes sf (snd (snd (dispatch lib output_dir sf N n_ids order results cnt w))) =
           summary_writes sf w @
           map (\<lambda>k. take (length results + k)
                     (fst (dispatch lib output_dir sf N n_ids order results cnt w)))
               (filter (\<lambda>k. (cnt + k) mod N = 0) [1..<Suc (length order)])"
proof (induction order arbitrary: results cnt w)
  case Nil
  then show ?case by simp
next
  case (Cons kid rest)
  obtain x w1 where d: "download_lightkurve_data lib (PyStr kid) output_dir w = (x, w1)"
    by (cases "download_lightkurve_data lib (PyStr kid) output_dir w")
  then obtain r where r: "x = Inr r" using worker_row_shape by blast
  define w2 where "w2 = (if Suc cnt mod N = 0 then
                  print [Str (''Intermediate progress saved: '' @ str_nat (Suc cnt)
                              @ ''/'' @ str_nat n_ids @ '' completed'')]
                    (save_summary sf (results @ [r]) w1)
                else w1)"
  have step: "dispatch lib output_dir sf N n_ids (kid # rest) results cnt w
       = dispatch lib output_dir sf N n_ids rest (results @ [r]) (Suc cnt) w2"
    using d r by (simp add: Let_def w2_def)
  let ?D = "dispatch lib output_dir sf N n_ids rest (results @ [r]) (Suc cnt) w2"
  obtain new where new: "fst ?D = (results @ [r]) @ new"
    using dispatch_rows by blast
  have w1: "summary_writes sf w1 = summary_writes sf w"
    using worker_summary_writes d by blast
  have w2: "summary_writes sf w2 = summary_writes sf w @
               (if Suc cnt mod N = 0 then [results @ [r]] else [])"
    by (simp add: w2_def summary_writes_save w1)
  have first: "take (Suc (length results)) (fst ?D) = results @ [r]"
    using new by simp
  have ih: "summary_writes sf (snd (snd ?D)) = summary_writes sf w2 @
           map (\<lambda>k. take (length (results @ [r]) + k) (fst ?D))
               (filter (\<lambda>k. (Suc cnt + k) mod N = 0) [1..<Suc (length rest)])"
    by (rule Cons.IH)
  show ?case
    unfolding step
    by (simp add: ih w2 upt_shift filter_map o_def first del: upt_Suc)
qed

lemma writes_print [simp]: "writes (print args w) = writes w"
  by (simp add: print_def)

lemma files_print [simp]: "files (print args w) = files w"
  by (simp add: print_def)

lemma queries_print [simp]: "queries (print args w) = queries w"
  by (simp add: print_def)

lemma os_path_exists_print [simp]: "os_path_exists (print args w) p = os_path_exists w p"
  by (simp add: os_path_exists_def)

lemma choose_column_world:
  "writes (snd (choose_column e df w)) = writes w \<and> files (snd (choose_column e df w)) = files w
   \<and> queries (snd (choose_column e df w)) = queries w"
  by (simp add: choose_column_def Let_def)

lemma load_existing_world:
  "writes (snd (load_existing sf w)) = writes w \<and> files (snd (load_existing sf w)) = files w
   \<and> queries (snd (load_existing sf w)) = queries w"
  by (simp add: load_existing_def Let_def split: option.splits sum.splits)

lemma summary_pass_world_all:
  "writes (snd (snd (summary_pass ids ex w))) = writes w \<and>
   files (snd (snd (summary_pass ids ex w))) = files w \<and>
   queries (snd (snd (summary_pass ids ex w))) = queries w"
  by (simp add: summary_pass_def Let_def)

lemma disk_pass_world:
  "writes (snd (snd (disk_pass out ids rs w))) = writes w \<and>
   files (snd (snd (disk_pass out ids rs w))) = files w \<and>
   queries (snd (snd (disk_pass out ids rs w))) = queries w"
  by (simp add: disk_pass_def Let_def)

lemma build_work_list_world:
  "writes (snd (snd (build_work_list out ids ex w))) = writes w \<and>
   files (snd (snd (build_work_list out ids ex w))) = files w \<and>
   queries (snd (snd (build_work_list out ids ex w))) = queries w"
  using summary_pass_world_all [of ids ex w]
  by (cases "summary_pass ids ex w") (simp add: build_work_list_def disk_pass_world)

lemma apply_limit_same [simp]: "apply_limit ids w = (ids, w)"
  by (simp add: apply_limit_def limit_def)

lemma length_as_completed [simp]: "length (as_completed e ids) = length ids"
  by (simp add: as_completed_def)

lemma summary_writes_cong: "writes w' = writes w \<Longrightarrow> summary_writes sf w' = summary_writes sf w"
  by (simp add: summary_writes_def)

lemma main_checkpoints:
  assumes "fst (main e lib w) = Completed"
  shows "\<exists>pre n. length (fst (snd (main e lib w))) = pre + n \<and>
           summary_writes the_summary_file (snd (snd (main e lib w))) =
             summary_writes the_summary_file w @
             map (\<lambda>k. take (pre + k) (fst (snd (main e lib w))))
                 (filter (\<lambda>k. k mod 50 = 0) [1..<Suc n]) @
             [fst (snd (main e lib w))]"
proof -
  let ?sf = the_summary_file
  obtain df where df: "input_table e = Inr df"
    using assms by (cases "input_table e") (auto simp: main_def Let_def)
  obtain c w1 where cc: "choose_column e df w = (c, w1)" by (cases "choose_column e df w")
  obtain col where col: "c = Some col"
    using assms df cc by (cases c) (auto simp: main_def Let_def)
  define w2 where "w2 = print [Str (''Using column '' @ quoted col @ '' for Kepler IDs'')] w1"
  obtain ld w3 where le: "load_existing ?sf w2 = (ld, w3)" by (cases "load_existing ?sf w2")
  obtain ex where kr: "keyed_records ld = Inr ex"
    using assms df cc col le
    by (cases "keyed_records ld") (auto simp: main_def Let_def the_summary_file_def w2_def)
  obtain k1 r1 w5 where bw: "build_work_list ''lightkurve_data'' (all_ids df col) ex w3 = (k1, r1, w5)"
    by (cases "build_work_list ''lightkurve_data'' (all_ids df col) ex w3") auto
  define w7 where "w7 = print [Str (''Preparing to download data for ''
                                        @ str_nat (length k1) @ '' Kepler IDs'')] w5"
  let ?D = "dispatch lib ''lightkurve_data'' ?sf 50 (length k1) (as_completed e k1) r1 0 w7"
  obtain r2 cn w8 where dp: "?D = (r2, cn, w8)" by (cases ?D) auto
  have m: "main e lib w = (if r2 = [] then Crashed ''KeyError: success'' else Completed, r2,
                          save_summary ?sf r2 w8)"
    using df cc col le kr bw dp
    by (simp add: main_def Let_def the_summary_file_def w2_def w7_def)
  have "writes w1 = writes w" using choose_column_world [of e df w] cc by simp
  moreover have "writes w3 = writes w2" using load_existing_world [of ?sf w2] le by simp
  moreover have "writes w5 = writes w3"
    using build_work_list_world [of "''lightkurve_data''" "all_ids df col" ex w3] bw by simp
  ultimately have "writes w7 = writes w" by (simp add: w7_def w2_def)
  then have sw7: "summary_writes ?sf w7 = summary_writes ?sf w" by (rule summary_writes_cong)
  have cp: "summary_writes ?sf w8 = summary_writes ?sf w7 @
           map (\<lambda>k. take (length r1 + k) r2)
               (filter (\<lambda>k. k mod 50 = 0) [1..<Suc (length k1)])"
    using dispatch_checkpoints [of 50 ?sf lib "''lightkurve_data''" "length k1" "as_completed e k1" r1 0 w7] dp
    by simp
  obtain new where new: "r2 = r1 @ new" "length new = length k1"
    using dispatch_rows [of lib "''lightkurve_data''" ?sf 50 "length k1" "as_completed e k1" r1 0 w7] dp
    by auto
  show ?thesis
  proof (intro exI conjI)
    show "length (fst (snd (main e lib w))) = length r1 + length k1"
      using m new by simp
    show "summary_writes ?sf (snd (snd (main e lib w))) =
             summary_writes ?sf w @
             map (\<lambda>k. take (length r1 + k) (fst (snd (main e lib w))))
                 (filter (\<lambda>k. k mod 50 = 0) [1..<Suc (length k1)]) @
             [fst (snd (main e lib w))]"
      using m cp sw7 by (simp add: summary_writes_save)
  qed
qed

text \<open>
  C6. Counting completions from zero, the dispatch loop writes the summary file after each
  completion whose number is a multiple of the interval, and what it writes then is the
  full summary at that moment: the rows known before the run and the rows of all
  completions so far. With interval 2 and five completions that is two writes, after the
  second and the fourth completion. \<open>main\<close> runs the loop with interval 50 and writes the
  full summary once more at the end.
\<close>

theorem checkpoint_every_interval:
  "(0 < N \<longrightarrow>
      summary_writes sf (snd (snd (dispatch lib output_dir sf N n_ids order results 0 w))) =
        summary_writes sf w @
        map (\<lambda>k. take (length results + k)
                  (fst (dispatch lib output_dir sf N n_ids order results 0 w)))
            (filter (\<lambda>k. k mod N = 0) [1..<Suc (length order)])) \<and>
   (length order = 5 \<longrightarrow>
      summary_writes sf (snd (snd (dispatch lib output_dir sf 2 n_ids order results 0 w))) =
        summary_writes sf w @
        [take (length results + 2) (fst (dispatch lib output_dir sf 2 n_ids order results 0 w)),
         take (length results + 4) (fst (dispatch lib output_dir sf 2 n_ids order results 0 w))]) \<and>
   (fst (main e lib w) = Completed \<longrightarrow>
      (\<exists>pre n. length (fst (snd (main e lib w))) = pre + n \<and>
           summary_writes the_summary_file (snd (snd (main e lib w))) =
             summary_writes the_summary_file w @
             map (\<lambda>k. take (pre + k) (fst (snd (main e lib w))))
                 (filter (\<lambda>k. k mod 50 = 0) [1..<Suc n]) @
             [fst (snd (main e lib w))]))"
proof (intro conjI impI)
  assume "0 < N"
  then show "summary_writes sf (snd (snd (dispatch lib output_dir sf N n_ids order results 0 w))) =
        summary_writes sf w @
        map (\<lambda>k. take (length results + k)
                  (fst (dispatch lib output_dir sf N n_ids order results 0 w)))
            (filter (\<lambda>k. k mod N = 0) [1..<Suc (length order)])"
    using dispatch_checkpoints [of N sf lib output_dir n_ids order results 0 w] by simp
next
  assume 5: "length order = 5"
  have "filter (\<lambda>k. k mod 2 = 0) [1..<Suc 5] = [2, 4::nat]"
    by (simp add: upt_rec)
  then show "summary_writes sf (snd (snd (dispatch lib output_dir sf 2 n_ids order results 0 w))) =
        summary_writes sf w @
        [take (length results + 2) (fst (dispatch lib output_dir sf 2 n_ids order results 0 w)),
         take (length results + 4) (fst (dispatch lib output_dir sf 2 n_ids order results 0 w))]"
    using dispatch_checkpoints [of 2 sf lib output_dir n_ids order results 0 w] 5 by simp
next
  assume "fst (main e lib w) = Completed"
  then show "\<exists>pre n. length (fst (snd (main e lib w))) = pre + n \<and>
           summary_writes the_summary_file (snd (snd (main e lib w))) =
             summary_writes the_summary_file w @
             map (\<lambda>k. take (pre + k) (fst (snd (main e lib w))))
                 (filter (\<lambda>k. k mod 50 = 0) [1..<Suc n]) @
             [fst (snd (main e lib w))]"
    by (rule main_checkpoints)
qed


lemma main_env_two: "fst (main env_two working_library empty_world) = Completed"
  by code_simp

theorem checkpoint_every_interval_witness:
  "(0::nat) < 2 \<and> length [''1'', ''2'', ''3'', ''4'', ''5''] = 5 \<and>
   fst (main env_two working_library empty_world) = Completed \<and>
   length (summary_writes ''s'' (snd (snd (dispatch working_library ''out'' ''s'' 2 5
             [''1'', ''2'', ''3'', ''4'', ''5''] [] 0 empty_world)))) = 2 \<and>
   (\<exists>pre n. length (fst (snd (main env_two working_library empty_world))) = pre + n)"
  using checkpoint_every_interval [of 2 "''s''" working_library "''out''" 5
      "[''1'', ''2'', ''3'', ''4'', ''5'']" "[]" empty_world env_two]
    main_env_two
  by (auto simp: summary_writes_def empty_world_def map_filter_def)

lemma main_unfold:
  assumes "input_table e = Inr df" and "''kepid'' \<in> set (columns df)"
  shows "main e lib w =
    (let w2 = print [Str (''Using column '' @ quoted ''kepid'' @ '' for Kepler IDs'')] w;
         (existing, w3) = load_existing the_summary_file w2
     in case keyed_records existing of
          Inl exc \<Rightarrow> (Crashed exc, [], w3)
        | Inr ex \<Rightarrow>
            (let (k1, r1, w5) = build_work_list ''lightkurve_data'' (all_ids df ''kepid'') ex w3;
                 w7 = print [Str (''Preparing to download data for ''
                                        @ str_nat (length k1) @ '' Kepler IDs'')] w5;
                 (r2, cn, w8) = dispatch lib ''lightkurve_data'' the_summary_file 50 (length k1)
                                   (as_completed e k1) r1 0 w7
             in (if r2 = [] then Crashed ''KeyError: success'' else Completed, r2,
                 save_summary the_summary_file r2 w8)))"
  using assms
  by (simp add: main_def choose_column_def Let_def the_summary_file_def
      split: prod.splits sum.splits)

lemma keyed_records_rows [simp]: "keyed_records (Records rs) = Inr rs"
  by (simp add: keyed_records_def)

lemma load_existing_absent:
  "\<not> os_path_exists w sf \<Longrightarrow> load_existing sf w = (Records [], w)"
  by (simp add: load_existing_def)

lemma summary_pass_fresh: "summary_pass ids [] w = (ids, [], w)"
  by (simp add: summary_pass_def)

lemma disk_pass_second:
  assumes "A \<noteq> B"
    and "\<not> os_path_exists w (os_path_join out (artifact_name A))"
    and "os_path_exists w (os_path_join out (artifact_name B))"
    and "id_of_path (os_path_join out (artifact_name B)) = B"
  shows "disk_pass out [A, B] rs w =
           ([A], rs @ [found_row (os_path_join out (artifact_name B))],
            print [Str (''Found '' @ str_nat 1
                     @ '' additional files that already exist but weren'' @ [CHR 0x27]
                     @ ''t in summary'')] w)"
  using assms by (simp add: disk_pass_def Let_def)

lemma final_summary_file:
  assumes "input_table e = Inr df" and "''kepid'' \<in> set (columns df)"
    and "\<not> os_path_exists w the_summary_file"
  shows "files (snd (snd (main e lib w))) the_summary_file =
           Some (Csv_summary (fst (snd (main e lib w))))"
  using assms
  by (simp add: main_unfold load_existing_absent Let_def save_summary_def write_file_def
      split: prod.splits)

lemma disk_pass_then_dispatch:
  assumes "input_table e = Inr df" and "''kepid'' \<in> set (columns df)"
    and "all_ids df ''kepid'' = [A, B]" and "A \<noteq> B"
    and "\<not> os_path_exists w the_summary_file"
    and "\<not> os_path_exists w (os_path_join ''lightkurve_data'' (artifact_name A))"
    and "os_path_exists w (os_path_join ''lightkurve_data'' (artifact_name B))"
    and "id_of_path (os_path_join ''lightkurve_data'' (artifact_name B)) = B"
  shows "fst (build_work_list ''lightkurve_data'' [A, B] [] w) = [A] \<and>
         \<lparr>kepler_id = PyStr B, success = True,
          output_file = Some (os_path_join ''lightkurve_data'' (artifact_name B)),
          status = ''Found existing file''\<rparr> \<in> set (fst (snd (main e lib w))) \<and>
         files (snd (snd (main e lib w))) the_summary_file =
           Some (Csv_summary (fst (snd (main e lib w))))"
proof -
  let ?pB = "os_path_join ''lightkurve_data'' (artifact_name B)"
  let ?w2 = "print [Str (''Using column '' @ quoted ''kepid'' @ '' for Kepler IDs'')] w"
  have row: "found_row ?pB = \<lparr>kepler_id = PyStr B, success = True,
          output_file = Some ?pB, status = ''Found existing file''\<rparr>"
    using assms(8) by (simp add: found_row_def)
  have b: "build_work_list ''lightkurve_data'' [A, B] [] w' =
             ([A], [found_row ?pB],
              print [Str (''Found '' @ str_nat 1
                     @ '' additional files that already exist but weren'' @ [CHR 0x27]
                     @ ''t in summary'')] w')"
    if "files w' = files w" for w'
    using disk_pass_second [of A B w' "''lightkurve_data''" "[]"] assms(4,6,7,8) that
    by (simp add: build_work_list_def summary_pass_fresh os_path_exists_def)
  have 1: "fst (build_work_list ''lightkurve_data'' [A, B] [] w) = [A]"
    using b [of w] by simp
  have le: "load_existing the_summary_file ?w2 = (Records [], ?w2)"
    using assms(5) by (simp add: load_existing_absent)
  let ?w7 = "print [Str (''Preparing to download data for ''
                                        @ str_nat (length [A]) @ '' Kepler IDs'')]
              (print [Str (''Found '' @ str_nat 1
                     @ '' additional files that already exist but weren'' @ [CHR 0x27]
                     @ ''t in summary'')] ?w2)"
  let ?D = "dispatch lib ''lightkurve_data'' the_summary_file 50 (length [A])
                           (as_completed e [A]) [found_row ?pB] 0 ?w7"
  have m: "fst (snd (main e lib w)) = fst ?D"
    using assms(1,2,3) le b [of ?w2]
    by (simp add: main_unfold Let_def split: prod.splits)
  obtain new where "fst ?D = [found_row ?pB] @ new"
    using dispatch_rows by blast
  then have 2: "found_row ?pB \<in> set (fst (snd (main e lib w)))"
    using m by simp
  show ?thesis
    using 1 2 row final_summary_file [OF assms(1,2,5)] by simp
qed

text \<open>
  C3, amended. Let the input list be the two different identifiers A and B, with no
  summary file, no file under the name of A and the file the Worker writes for B on
  disk; and let B be in cleaned form: \<open>strip\<close> leaves it unchanged, so that the Worker
  and the builder name the same file, and the builder reads it back unchanged from that
  file name (as it does for every cleaned identifier without the characters \<open>/\<close>,
  \<open>k\<close> and \<open>_\<close>, so for every number). Then the work list is exactly A, and the final
  summary, which is what the summary file holds at the end, contains for B the row with
  \<open>success = True\<close>, the path of the file and the status \<open>Found existing file\<close>.
\<close>

theorem disk_beats_summary:
  assumes "input_table e = Inr df" and "''kepid'' \<in> set (columns df)"
    and "all_ids df ''kepid'' = [A, B]" and "A \<noteq> B"
    and "\<not> os_path_exists w the_summary_file"
    and "\<not> os_path_exists w (os_path_join ''lightkurve_data'' (artifact_name A))"
    and "os_path_exists w (artifact_path ''lightkurve_data'' (PyStr B))"
    and "clean_id ''lightkurve_data'' B"
  shows "fst (build_work_list ''lightkurve_data'' [A, B] [] w) = [A] \<and>
         \<lparr>kepler_id = PyStr B, success = True,
          output_file = Some (artifact_path ''lightkurve_data'' (PyStr B)),
          status = ''Found existing file''\<rparr> \<in> set (fst (snd (main e lib w))) \<and>
         files (snd (snd (main e lib w))) the_summary_file =
           Some (Csv_summary (fst (snd (main e lib w))))"
proof -
  have p: "artifact_path ''lightkurve_data'' (PyStr B)
             = os_path_join ''lightkurve_data'' (artifact_name B)"
    using assms(8) by (simp add: artifact_path_def clean_id_def)
  have r: "id_of_path (os_path_join ''lightkurve_data'' (artifact_name B)) = B"
    using assms(8) by (simp add: clean_id_def)
  have x: "os_path_exists w (os_path_join ''lightkurve_data'' (artifact_name B))"
    using assms(7) p by simp
  show ?thesis
    unfolding p by (rule disk_pass_then_dispatch [OF assms(1-6) x r])
qed

theorem disk_beats_summary_witness:
  "input_table env_two = Inr [(''kepid'', [PyInt 1, PyInt 2])] \<and>
   ''kepid'' \<in> set (columns [(''kepid'', [PyInt 1, PyInt 2])]) \<and>
   all_ids [(''kepid'', [PyInt 1, PyInt 2])] ''kepid'' = [''1'', ''2''] \<and>
   \<not> os_path_exists (world_with_file ''lightkurve_data/kepler_2_lightkurve.csv'')
        the_summary_file \<and>
   \<not> os_path_exists (world_with_file ''lightkurve_data/kepler_2_lightkurve.csv'')
        (os_path_join ''lightkurve_data'' (artifact_name ''1'')) \<and>
   os_path_exists (world_with_file ''lightkurve_data/kepler_2_lightkurve.csv'')
        (artifact_path ''lightkurve_data'' (PyStr ''2'')) \<and>
   clean_id ''lightkurve_data'' ''2'' \<and>
   fst (build_work_list ''lightkurve_data'' [''1'', ''2''] []
          (world_with_file ''lightkurve_data/kepler_2_lightkurve.csv'')) = [''1''] \<and>
   \<lparr>kepler_id = PyStr ''2'', success = True,
    output_file = Some (artifact_path ''lightkurve_data'' (PyStr ''2'')),
    status = ''Found existing file''\<rparr>
     \<in> set (fst (snd (main env_two working_library
                  (world_with_file ''lightkurve_data/kepler_2_lightkurve.csv''))))"
proof -
  let ?w = "world_with_file ''lightkurve_data/kepler_2_lightkurve.csv''"
  have h1: "input_table env_two = Inr [(''kepid'', [PyInt 1, PyInt 2])]"
    by (simp add: env_two_def)
  have h2: "''kepid'' \<in> set (columns [(''kepid'', [PyInt 1, PyInt 2])])"
    by (simp add: columns_def)
  have h3: "all_ids [(''kepid'', [PyInt 1, PyInt 2])] ''kepid'' = [''1'', ''2'']"
    by code_simp
  have h4: "''1'' \<noteq> ''2''" by simp
  have h5: "\<not> os_path_exists ?w the_summary_file" by code_simp
  have h6: "\<not> os_path_exists ?w (os_path_join ''lightkurve_data'' (artifact_name ''1''))"
    by code_simp
  have h7: "os_path_exists ?w (artifact_path ''lightkurve_data'' (PyStr ''2''))"
    by code_simp
  have h8: "clean_id ''lightkurve_data'' ''2''"
    by code_simp
  show ?thesis
    using disk_beats_summary [OF h1 h2 h3 h4 h5 h6 h7 h8, of working_library]
      h1 h2 h3 h5 h6 h7 h8
    by simp
qed

text \<open>
  The builder reads the identifier of an existing file back from the file name, by
  deleting \<open>kepler_\<close> and \<open>_lightkurve.csv\<close> from its base name. An identifier
  without \<open>/\<close>, \<open>k\<close> and \<open>_\<close> comes back unchanged.
\<close>

lemma py_replace_skip:
  assumes "old \<noteq> []" and "hd old \<notin> set s"
  shows "py_replace old new (s @ t) = s @ py_replace old new t"
  using assms
proof (induction s)
  case Nil
  then show ?case by simp
next
  case (Cons c cs)
  have "\<not> startswith (c # cs @ t) old"
  proof
    assume "startswith (c # cs @ t) old"
    then have "take (length old) (c # cs @ t) = old" by (simp add: startswith_def)
    then have "hd old = c" using Cons.prems(1) by (cases old) auto
    then show False using Cons.prems(2) by simp
  qed
  then show ?case using Cons by simp
qed

lemma basename_join:
  assumes "CHR ''/'' \<notin> set b"
  shows "os_path_basename (os_path_join a b) = b"
proof -
  have nb: "\<not> startswith b ''/''"
    using assms by (cases b) (auto simp: startswith_def)
  have a0: "takeWhile (\<lambda>c. c \<noteq> CHR ''/'') (rev b) = rev b"
    unfolding takeWhile_eq_all_conv using assms by auto
  have t0: "rev (takeWhile (\<lambda>c. c \<noteq> CHR ''/'') (rev b)) = b"
    unfolding a0 by simp
  have a1: "takeWhile (\<lambda>c. c \<noteq> CHR ''/'') (rev b @ CHR ''/'' # ys)
              = takeWhile (\<lambda>c. c \<noteq> CHR ''/'') (rev b)" for ys
    by (rule takeWhile_tail) simp
  have t1: "rev (takeWhile (\<lambda>c. c \<noteq> CHR ''/'') (rev b @ CHR ''/'' # ys)) = b" for ys
    unfolding a1 a0 by simp
  show ?thesis
  proof (cases "a = []")
    case True
    then show ?thesis using nb by (simp add: os_path_join_def os_path_basename_def t0)
  next
    case False
    show ?thesis
    proof (cases "last a = CHR ''/''")
      case True
      have "rev a = last a # rev (butlast a)"
        using False by (metis append_butlast_last_id rev.simps(2) rev_rev_ident rev_swap
            append_Cons append_Nil rev_append)
      then have ra: "rev a = CHR ''/'' # rev (butlast a)"
        using True by simp
      show ?thesis
        using nb False True by (simp add: os_path_join_def os_path_basename_def ra t1)
    next
      case nl: False
      then show ?thesis
        using nb False by (simp add: os_path_join_def os_path_basename_def t1)
    qed
  qed
qed

lemma id_of_path_plain:
  assumes "CHR ''/'' \<notin> set B" and "CHR ''k'' \<notin> set B" and "CHR ''_'' \<notin> set B"
  shows "id_of_path (os_path_join output_dir (artifact_name B)) = B"
proof -
  have "CHR ''/'' \<notin> set (artifact_name B)"
    using assms(1) by (auto simp: artifact_name_def)
  then have bn: "os_path_basename (os_path_join output_dir (artifact_name B)) = artifact_name B"
    by (rule basename_join)
  have r0: "py_replace ''kepler_'' [] ''_lightkurve.csv'' = ''_lightkurve.csv''"
    by (simp add: startswith_def)
  have "py_replace ''kepler_'' [] (artifact_name B) =
          py_replace ''kepler_'' [] (B @ ''_lightkurve.csv'')"
    by (simp add: artifact_name_def startswith_def)
  also have "\<dots> = B @ ''_lightkurve.csv''"
    using py_replace_skip [of "''kepler_''" B "[]" "''_lightkurve.csv''"] assms(2) r0 by simp
  finally have r1: "py_replace ''kepler_'' [] (artifact_name B) = B @ ''_lightkurve.csv''" .
  have r2: "py_replace ''_lightkurve.csv'' [] ''_lightkurve.csv'' = []"
    by (simp add: startswith_def)
  have "py_replace ''_lightkurve.csv'' [] (B @ ''_lightkurve.csv'') = B"
    using py_replace_skip [of "''_lightkurve.csv''" B "[]" "''_lightkurve.csv''"] assms(3) r2
    by simp
  then show ?thesis by (simp add: id_of_path_def bn r1)
qed


text \<open>
  C3 as the claim states it fails in three ways. For the identifiers 1 and 2 with the
  file of 2 on disk, the final summary holds no row with the status
  \<open>found existing file\<close>: the status of the row for 2 is \<open>Found existing file\<close>. For
  the identifiers 1 and \<open>kepler_2\<close> with the file of \<open>kepler_2\<close> on disk, the work
  list is not 1 alone: the identifier read back from the file name is 2, so \<open>kepler_2\<close>
  stays in the list. And for the identifiers 1 and \<open>K7\<close> written with a trailing blank,
  with the file the Worker writes for it on disk, the work list is not 1 alone either:
  the builder looks for a file under the padded name and finds none.
\<close>

theorem disk_beats_summary_counterexample:
  "os_path_exists (world_with_file ''lightkurve_data/kepler_2_lightkurve.csv'')
        (os_path_join ''lightkurve_data'' (artifact_name ''2'')) \<and>
   map status (fst (snd (main env_two working_library
                  (world_with_file ''lightkurve_data/kepler_2_lightkurve.csv''))))
     = [''Found existing file'', ''Downloaded''] \<and>
   ''found existing file'' \<notin> set (map status (fst (snd (main env_two working_library
                  (world_with_file ''lightkurve_data/kepler_2_lightkurve.csv''))))) \<and>
   os_path_exists (world_with_file ''lightkurve_data/kepler_kepler_2_lightkurve.csv'')
        (os_path_join ''lightkurve_data'' (artifact_name ''kepler_2'')) \<and>
   fst (build_work_list ''lightkurve_data'' [''1'', ''kepler_2''] []
          (world_with_file ''lightkurve_data/kepler_kepler_2_lightkurve.csv''))
     = [''1'', ''kepler_2''] \<and>
   os_path_exists (world_with_file ''lightkurve_data/kepler_K7_lightkurve.csv'')
        (artifact_path ''lightkurve_data'' (PyStr ''K7 '')) \<and>
   fst (build_work_list ''lightkurve_data'' [''1'', ''K7 ''] []
          (world_with_file ''lightkurve_data/kepler_K7_lightkurve.csv''))
     = [''1'', ''K7 ''] \<and>
   fst (snd (build_work_list ''lightkurve_data'' [''1'', ''K7 ''] []
          (world_with_file ''lightkurve_data/kepler_K7_lightkurve.csv''))) = []"
  by code_simp

section \<open>An unreadable summary file\<close>

















text \<open>
  A summary file that pandas can read but whose records have no key \<open>kepler_id\<close> is a
  different matter: with at least one record the run ends with \<open>KeyError\<close> at line 120,
  before any work.
\<close>

lemma other_table_crashes:
  "fst (main env_two working_library world_with_other_table) = Crashed ''KeyError: kepler_id'' \<and>
   queries (snd (snd (main env_two working_library world_with_other_table))) = []"
  by code_simp

section \<open>Identifiers that are not in cleaned form\<close>

text \<open>
  C5. The Worker cleans the identifier with \<open>strip\<close> before it names the file and the
  row; the work-list builder compares and names files with the identifier as read. For
  the identifier \<open>K7\<close> written with a trailing blank, a first run from an empty
  directory downloads the light curve and records the row for \<open>K7\<close>. The second run,
  started on what the first left, does not find the padded identifier among the processed
  ones nor a file under the padded name, dispatches it again, and the Worker answers with
  a second row for \<open>K7\<close>: the persisted summary lists the identifier twice.
\<close>

theorem padded_identifier_listed_twice:
  "fst (main env_padded working_library empty_world) = Completed \<and>
   map (py_str \<circ> kepler_id) (fst (snd (main env_padded working_library empty_world)))
     = [''K7''] \<and>
   fst (main env_padded working_library
          (snd (snd (main env_padded working_library empty_world)))) = Completed \<and>
   map (py_str \<circ> kepler_id)
     (fst (snd (main env_padded working_library
                  (snd (snd (main env_padded working_library empty_world))))))
     = [''K7'', ''K7''] \<and>
   map status
     (fst (snd (main env_padded working_library
                  (snd (snd (main env_padded working_library empty_world))))))
     = [''Downloaded'', ''Skipped (already exists)''] \<and>
   files (snd (snd (main env_padded working_library
                      (snd (snd (main env_padded working_library empty_world))))))
         the_summary_file
     = Some (Csv_summary
               (fst (snd (main env_padded working_library
                            (snd (snd (main env_padded working_library empty_world)))))))"
  by code_simp

text \<open>
  Identifiers in cleaned form are not affected: if the input list has no identifier
  twice, all its identifiers are in cleaned form and the prior summary lists no
  identifier twice, then the final summary lists no identifier twice, and it is what the
  next run loads as its prior summary.
\<close>

lemma set_as_completed [simp]: "set (as_completed e ks) = set ks"
proof -
  have "set (as_completed e ks) = snd ` set (enumerate 0 ks)"
    by (simp add: as_completed_def)
  also have "\<dots> = set (map snd (enumerate 0 ks))" by (simp only: set_map)
  also have "\<dots> = set ks" by (simp only: map_snd_enumerate)
  finally show ?thesis .
qed

lemma distinct_as_completed:
  assumes "distinct ks"
  shows "distinct (as_completed e ks)"
proof -
  have "inj_on snd (set (enumerate 0 ks))"
  proof (rule inj_onI)
    fix p q
    assume p: "p \<in> set (enumerate 0 ks)" and q: "q \<in> set (enumerate 0 ks)"
      and eq: "snd p = snd q"
    have "fst p < length ks" "ks ! fst p = snd p"
      using p by (simp_all add: in_set_enumerate_eq)
    moreover have "fst q < length ks" "ks ! fst q = snd q"
      using q by (simp_all add: in_set_enumerate_eq)
    ultimately have "fst p = fst q"
      using assms eq by (metis nth_eq_iff_index_eq)
    then show "p = q" using eq by (simp add: prod_eq_iff)
  qed
  moreover have "distinct (enumerate 0 ks)" by (simp add: distinct_enumerate)
  ultimately show ?thesis
    by (simp add: as_completed_def distinct_map)
qed

lemma disk_pass_ids:
  assumes "\<forall>kid \<in> set ks. id_of_path (os_path_join out (artifact_name kid)) = kid"
  shows "fst (disk_pass out ks rs w)
           = filter (\<lambda>kid. \<not> os_path_exists w (os_path_join out (artifact_name kid))) ks \<and>
         summary_ids (fst (snd (disk_pass out ks rs w)))
           = summary_ids rs @
             filter (\<lambda>kid. os_path_exists w (os_path_join out (artifact_name kid))) ks"
proof -
  let ?p = "\<lambda>kid. os_path_join out (artifact_name kid)"
  let ?found = "filter (os_path_exists w) (map ?p ks)"
  have f: "?found = map ?p (filter (\<lambda>kid. os_path_exists w (?p kid)) ks)"
    by (simp add: filter_map o_def)
  have ids: "map id_of_path ?found = filter (\<lambda>kid. os_path_exists w (?p kid)) ks"
    unfolding f using assms by (induction ks) auto
  have srow: "summary_ids (map found_row fs) = map id_of_path fs" for fs
    by (simp add: summary_ids_def found_row_def o_def)
  have keep: "filter (\<lambda>kid. kid \<notin> set (map id_of_path ?found)) ks
               = filter (\<lambda>kid. \<not> os_path_exists w (?p kid)) ks"
    unfolding ids by (rule filter_cong) auto
  have none: "?found = [] \<Longrightarrow> filter (\<lambda>kid. \<not> os_path_exists w (?p kid)) ks = ks \<and>
                 filter (\<lambda>kid. os_path_exists w (?p kid)) ks = []"
    using ids by (auto simp: filter_empty_conv filter_id_conv)
  show ?thesis
  proof (cases "?found = []")
    case True
    then show ?thesis using none by (simp add: disk_pass_def Let_def)
  next
    case False
    then show ?thesis
      using keep ids srow [of ?found]
      by (simp add: disk_pass_def Let_def summary_ids_def)
  qed
qed

lemma load_existing_files:
  "files a = files b \<Longrightarrow> fst (load_existing sf a) = fst (load_existing sf b)"
  by (simp add: load_existing_def os_path_exists_def split: option.splits sum.splits)

lemma load_existing_saved:
  "fst (load_existing sf (save_summary sf rs w)) = Records rs"
  by (simp add: load_existing_def os_path_exists_def save_summary_def write_file_def
      read_summary_def)

lemma cleaned_identifiers_stay_unique:
  assumes "input_table e = Inr df" and "''kepid'' \<in> set (columns df)"
    and "distinct (all_ids df ''kepid'')"
    and "\<forall>kid \<in> set (all_ids df ''kepid''). clean_id ''lightkurve_data'' kid"
    and "fst (load_existing the_summary_file w) = Records prior"
    and "distinct (summary_ids prior)"
  shows "distinct (summary_ids (fst (snd (main e lib w)))) \<and>
         fst (load_existing the_summary_file (snd (snd (main e lib w))))
           = Records (fst (snd (main e lib w)))"
proof -
  let ?sf = the_summary_file
  let ?out = "''lightkurve_data''"
  let ?ids = "all_ids df ''kepid''"
  let ?w2 = "print [Str (''Using column '' @ quoted ''kepid'' @ '' for Kepler IDs'')] w"
  let ?has = "\<lambda>w kid. os_path_exists w (os_path_join ?out (artifact_name kid))"
  obtain ld w3 where le0: "load_existing ?sf ?w2 = (ld, w3)" by (cases "load_existing ?sf ?w2")
  have "fst (load_existing ?sf ?w2) = fst (load_existing ?sf w)"
    by (rule load_existing_files) simp
  then have ld: "ld = Records prior" using assms(5) le0 by simp
  define ex where "ex = prior"
  have le: "load_existing ?sf ?w2 = (Records ex, w3)" using le0 ld by (simp add: ex_def)
  have dex: "distinct (summary_ids ex)" using assms(6) by (simp add: ex_def)
  obtain k0 r0 w4 where sp: "summary_pass ?ids ex w3 = (k0, r0, w4)"
    by (cases "summary_pass ?ids ex w3") auto
  have k0: "k0 = filter (\<lambda>kid. kid \<notin> set (summary_ids ex)) ?ids"
    using summary_pass_ids [of ?ids ex w3] sp by (simp add: summary_ids_def)
  have r0: "r0 = ex" using summary_pass_results [of ?ids ex w3] sp by simp
  obtain k1 r1 w5 where dp: "disk_pass ?out k0 r0 w4 = (k1, r1, w5)"
    by (cases "disk_pass ?out k0 r0 w4") auto
  have bw: "build_work_list ?out ?ids ex w3 = (k1, r1, w5)"
    using sp dp by (simp add: build_work_list_def)
  have clean0: "\<forall>kid \<in> set k0. id_of_path (os_path_join ?out (artifact_name kid)) = kid"
    using assms(4) k0 by (simp add: clean_id_def)
  have k1: "k1 = filter (\<lambda>kid. \<not> ?has w4 kid) k0"
    and r1: "summary_ids r1 = summary_ids ex @ filter (?has w4) k0"
    using disk_pass_ids [OF clean0, of r0 w4] dp r0 by simp_all
  let ?w7 = "print [Str (''Preparing to download data for ''
                                        @ str_nat (length k1) @ '' Kepler IDs'')] w5"
  let ?D = "dispatch lib ?out ?sf 50 (length k1) (as_completed e k1) r1 0 ?w7"
  obtain r2 cn w8 where dd: "?D = (r2, cn, w8)" by (cases ?D) auto
  have m: "main e lib w = (if r2 = [] then Crashed ''KeyError: success'' else Completed, r2,
                          save_summary ?sf r2 w8)"
    using assms(1,2) le bw dd by (simp add: main_unfold Let_def)
  have "\<forall>kid \<in> set (as_completed e k1). strip kid = kid"
    using assms(4) k1 k0 by (simp add: clean_id_def)
  then have "map strip (as_completed e k1) = as_completed e k1"
    by (intro map_idI) simp
  then have r2: "summary_ids r2 = summary_ids ex @ filter (?has w4) k0 @ as_completed e k1"
    using dispatch_ids [of lib ?out ?sf 50 "length k1" "as_completed e k1" r1 0 ?w7] dd r1
    by simp
  have d0: "distinct k0" using assms(3) k0 by simp
  have d1: "distinct (as_completed e k1)"
    using d0 k1 by (simp add: distinct_as_completed)
  have dis: "set k0 \<inter> set (summary_ids ex) = {}" using k0 by auto
  have s1: "set (as_completed e k1) = {kid \<in> set k0. \<not> ?has w4 kid}"
    using k1 by simp
  have "distinct (summary_ids r2)"
    unfolding r2 using dex d0 d1 dis s1 by auto
  then show ?thesis using m by (simp add: load_existing_saved)
qed

section \<open>Properties of the label standardisation script\<close>

lemma backup_differs: "path fi @ ''.backup_'' @ timestamp \<noteq> path fi"
  by simp

lemma try_body_effect:
  assumes "disk st (path fi) = Some original"
    and "copy_fault m (path fi) (path fi @ ''.backup_'' @ timestamp) = None"
    and "try_body pd m timestamp fi st = (x, st')"
  shows "disk st' (path fi @ ''.backup_'' @ timestamp) = Some original \<and>
         (\<exists>rest. journal st' = journal st @ (path fi @ ''.backup_'' @ timestamp, original) # rest) \<and>
         (x \<noteq> Inr Updated \<and> (\<forall>e. x \<noteq> Inl e) \<longrightarrow> disk st' (path fi) = Some original)"
  using assms
  by (auto simp: try_body_def copy2_def put_def Let_def
      split: sum.splits option.splits if_splits prod.splits)

text \<open>
  When neither of the two copies nor the handler's first print raises, the iteration
  does what is wanted of it, whatever pandas and the other prints do: if anything is
  written, the first write is the backup of the original content; and unless the
  iteration ends with the file updated, the file holds its original content at the end.
\<close>

lemma restore_when_copies_succeed:
  assumes "disk st (path fi) = Some original"
    and "copy_fault m (path fi) (path fi @ ''.backup_'' @ timestamp) = None"
    and "copy_fault m (path fi @ ''.backup_'' @ timestamp) (path fi) = None"
    and "print_fault m (path fi) 174 = None"
  shows "\<exists>r st'. process_file pd m timestamp fi st = (r, st') \<and> r \<noteq> Not_found \<and>
           (journal st' = journal st \<or>
            (\<exists>rest. journal st' =
                      journal st @ (path fi @ ''.backup_'' @ timestamp, original) # rest)) \<and>
           (r \<noteq> Done Updated \<longrightarrow> disk st' (path fi) = Some original)"
proof (cases "then_do (say m (path fi) 101) (\<lambda>_. say m (path fi) 102)")
  case (Inl e)
  then have "process_file pd m timestamp fi st = (Aborted e, st)"
    using assms(1) by (simp add: process_file_def Let_def)
  then show ?thesis using assms(1) by simp
next
  case (Inr u)
  let ?b = "path fi @ ''.backup_'' @ timestamp"
  obtain x st1 where tb: "try_body pd m timestamp fi st = (x, st1)"
    by (cases "try_body pd m timestamp fi st")
  have eff: "disk st1 ?b = Some original"
    "\<exists>rest. journal st1 = journal st @ (?b, original) # rest"
    "x \<noteq> Inr Updated \<and> (\<forall>e. x \<noteq> Inl e) \<longrightarrow> disk st1 (path fi) = Some original"
    using try_body_effect [OF assms(1,2) tb] by simp_all
  show ?thesis
  proof (cases x)
    case s: (Inr s)
    then have "process_file pd m timestamp fi st = (Done s, st1)"
      using assms(1) tb Inr by (simp add: process_file_def Let_def)
    then show ?thesis using eff s by auto
  next
    case e: (Inl e)
    define st2 where "st2 = put (path fi) original st1"
    have c: "copy2 m ?b (path fi) st1 = (Inr (), st2)"
      using eff(1) assms(3) by (simp add: copy2_def st2_def)
    have "process_file pd m timestamp fi st
            = (case say m (path fi) 178 of Inl e3 \<Rightarrow> Aborted e3 | Inr _ \<Rightarrow> Failed e, st2)"
      using assms(1,4) tb Inr e eff(1) c
      by (simp add: process_file_def Let_def say_def split: sum.splits option.splits)
    moreover have "\<exists>rest. journal st2 = journal st @ (?b, original) # rest"
      using eff(2) by (auto simp: st2_def put_def)
    moreover have "disk st2 (path fi) = Some original" by (simp add: st2_def put_def)
    ultimately show ?thesis by (auto split: sum.splits)
  qed
qed

lemma full_disk_run:
  "fst (process_file full_disk_pandas sound_machine ''20250101_120000'' classroom_info
          classroom_store)
     = Failed ''No space left on device'' \<and>
   journal (snd (process_file full_disk_pandas sound_machine ''20250101_120000''
                   classroom_info classroom_store))
     = [(''KOI-Classroom-Data.csv.backup_20250101_120000'',
         [''koi_disposition'', ''CONFIRMED'', ''FALSE POSITIVE'']),
        (''KOI-Classroom-Data.csv'', []),
        (''KOI-Classroom-Data.csv'', [''koi_disposition'', ''CONFIRMED'', ''FALSE POSITIVE''])]"
  by code_simp

text \<open>
  The handler reports the error (line 174) before it restores. When the output stream
  is closed once the file has been rewritten, the report at line 165 raises, the report
  in the handler raises as well, and the script ends with the file rewritten.
\<close>

lemma closed_stream_run:
  "fst (process_file plain_pandas stream_closes_after_rewrite ''20250101_120000''
          classroom_info classroom_store)
     = Aborted ''BrokenPipeError'' \<and>
   journal (snd (process_file plain_pandas stream_closes_after_rewrite ''20250101_120000''
                   classroom_info classroom_store))
     = [(''KOI-Classroom-Data.csv.backup_20250101_120000'',
         [''koi_disposition'', ''CONFIRMED'', ''FALSE POSITIVE'']),
        (''KOI-Classroom-Data.csv'', [''koi_disposition'', ''candidate'', ''non-candidate''])]"
  by code_simp

text \<open>
  C8. The backup is made before the rewrite, but the original content is not restored
  on every failure path. The file \<open>KOI-Classroom-Data.csv\<close> holds a header and two
  rows. The disk is full when \<open>shutil.copy2\<close> writes the backup (line 107): the copy
  creates the backup file, raises, and leaves it empty. The handler finds a file at the
  backup path (line 176) and copies it over the original (line 177). The iteration ends
  as a failure, nothing but the two copies was written, and the file that was intact
  before the handler ran is now empty.
\<close>

theorem failed_backup_overwrites_original:
  "disk classroom_store (path classroom_info)
     = Some [''koi_disposition'', ''CONFIRMED'', ''FALSE POSITIVE''] \<and>
   fst (process_file plain_pandas disk_fills_during_backup ''20250101_120000''
          classroom_info classroom_store)
     = Failed ''No space left on device'' \<and>
   journal (snd (process_file plain_pandas disk_fills_during_backup ''20250101_120000''
                   classroom_info classroom_store))
     = [(''KOI-Classroom-Data.csv.backup_20250101_120000'', []),
        (''KOI-Classroom-Data.csv'', [])] \<and>
   disk (snd (process_file plain_pandas disk_fills_during_backup ''20250101_120000''
                classroom_info classroom_store))
        (path classroom_info)
     = Some []"
  by code_simp

end
